theory Spec2Isabelle
  imports Complex_Main "HOL-Library.Sublist" "HOL-Library.Log_Nat"
begin

section \<open>Numbers\<close>

text \<open>
  A JavaScript number is an IEEE 754 binary64 value: \<^verbatim>\<open>NaN\<close>, an infinity, or a finite
  double, given by its exact rational value. The two zeros are not told apart (no response
  of the server depends on the sign of a zero).
\<close>

datatype jsnum = NaN | NegInf | Fin rat | PosInf

definition pow2 :: "int \<Rightarrow> rat" where
  "pow2 e = (if 0 \<le> e then 2 ^ nat e else 1 / 2 ^ nat (- e))"

text \<open>The exponent of a positive rational: the \<open>e\<close> with \<open>2\<^sup>e \<le> x < 2\<^sup>e\<^sup>+\<^sup>1\<close>.\<close>

definition ilog2 :: "rat \<Rightarrow> int" where
  "ilog2 x =
     (case quotient_of x of (a, b) \<Rightarrow>
        let d = bitlen a - bitlen b in if pow2 d \<le> x then d else d - 1)"

definition round_half_even :: "rat \<Rightarrow> int" where
  "round_half_even y =
     (let f = \<lfloor>y\<rfloor>; r = y - of_int f
      in if r < 1 / 2 then f else if 1 / 2 < r then f + 1 else if even f then f else f + 1)"

text \<open>
  Rounding of a real value to binary64, as every arithmetic operation and every reading of
  a decimal literal does it: to the nearest multiple of \<open>2\<^sup>e\<^sup>-\<^sup>5\<^sup>2\<close>, where \<open>e\<close> is the exponent of
  the value and at least that of the subnormal numbers; ties go to the even multiple; a
  magnitude that rounds to \<open>2\<^sup>1\<^sup>0\<^sup>2\<^sup>4\<close> or beyond becomes an infinity.
\<close>

definition fl :: "rat \<Rightarrow> jsnum" where
  "fl x =
     (if x = 0 then Fin 0
      else
        let a = \<bar>x\<bar>;
            e = max (ilog2 a) (- 1022);
            ulp = pow2 (e - 52);
            m = round_half_even (a / ulp)
        in if 1023 < e \<or> (e = 1023 \<and> 2 ^ 53 \<le> m)
           then (if x < 0 then NegInf else PosInf)
           else Fin (if x < 0 then - (of_int m * ulp) else of_int m * ulp))"

text \<open>A number read from a JSON integer literal.\<close>

definition num_of_int :: "int \<Rightarrow> jsnum" where
  "num_of_int n = fl (of_int n)"

fun js_neg :: "jsnum \<Rightarrow> jsnum" where
  "js_neg NaN = NaN"
| "js_neg NegInf = PosInf"
| "js_neg (Fin x) = Fin (- x)"
| "js_neg PosInf = NegInf"

fun js_add :: "jsnum \<Rightarrow> jsnum \<Rightarrow> jsnum" where
  "js_add (Fin x) (Fin y) = fl (x + y)"
| "js_add NaN b = NaN"
| "js_add a NaN = NaN"
| "js_add PosInf NegInf = NaN"
| "js_add NegInf PosInf = NaN"
| "js_add PosInf b = PosInf"
| "js_add a PosInf = PosInf"
| "js_add NegInf b = NegInf"
| "js_add a NegInf = NegInf"

text \<open>The sign of a number that is not \<^verbatim>\<open>NaN\<close>: -1, 0 or 1.\<close>

fun js_sgn :: "jsnum \<Rightarrow> int" where
  "js_sgn NaN = 0"
| "js_sgn NegInf = - 1"
| "js_sgn (Fin x) = (if x < 0 then - 1 else if x = 0 then 0 else 1)"
| "js_sgn PosInf = 1"

fun js_mul :: "jsnum \<Rightarrow> jsnum \<Rightarrow> jsnum" where
  "js_mul (Fin x) (Fin y) = fl (x * y)"
| "js_mul NaN b = NaN"
| "js_mul a NaN = NaN"
| "js_mul a b =
     (if js_sgn a * js_sgn b = 0 then NaN
      else if js_sgn a * js_sgn b < 0 then NegInf else PosInf)"

text \<open>\<^verbatim>\<open>a < b\<close>, \<^verbatim>\<open>a <= b\<close> and \<^verbatim>\<open>a === b\<close>: every comparison with \<^verbatim>\<open>NaN\<close> is false. \<^verbatim>\<open>a > b\<close> is
  \<open>js_lt b a\<close>, \<^verbatim>\<open>a >= b\<close> is \<open>js_le b a\<close>, and \<^verbatim>\<open>a !== b\<close> is the negation of \<open>js_seq a b\<close>.\<close>

fun js_lt :: "jsnum \<Rightarrow> jsnum \<Rightarrow> bool" where
  "js_lt (Fin x) (Fin y) = (x < y)"
| "js_lt NaN b = False"
| "js_lt a NaN = False"
| "js_lt a NegInf = False"
| "js_lt NegInf b = True"
| "js_lt PosInf b = False"
| "js_lt a PosInf = True"

fun js_seq :: "jsnum \<Rightarrow> jsnum \<Rightarrow> bool" where
  "js_seq NaN b = False"
| "js_seq a NaN = False"
| "js_seq a b = (a = b)"

definition js_le :: "jsnum \<Rightarrow> jsnum \<Rightarrow> bool" where
  "js_le a b = (js_lt a b \<or> js_seq a b)"

text \<open>
  \<^verbatim>\<open>parseFloat(x.toFixed(2))\<close>. \<^verbatim>\<open>toFixed\<close> prints \<^verbatim>\<open>NaN\<close> and the infinities by name and a
  number of magnitude \<open>10\<^sup>2\<^sup>1\<close> or more as \<^verbatim>\<open>toString\<close> does, and \<^verbatim>\<open>parseFloat\<close> reads each of
  these back. Otherwise the sign is split off, and of the integers \<open>n\<close> with \<open>n / 100\<close>
  closest to the absolute value the larger one is printed; \<^verbatim>\<open>parseFloat\<close> rounds the
  decimal to the nearest double.
\<close>

fun toFixed2 :: "jsnum \<Rightarrow> jsnum" where
  "toFixed2 (Fin x) =
     (if 10 ^ 21 \<le> \<bar>x\<bar> then Fin x
      else if x < 0 then fl (- (of_int \<lfloor>(- x) * 100 + 1 / 2\<rfloor> / 100))
      else fl (of_int \<lfloor>x * 100 + 1 / 2\<rfloor> / 100))"
| "toFixed2 a = a"

text \<open>
  \<^verbatim>\<open>parseInt\<close> of a number converts it to a string first. An integral double of magnitude
  below \<open>10\<^sup>2\<^sup>1\<close> prints as its digits and is read back as itself. A larger one prints in
  exponent notation, of which \<^verbatim>\<open>parseInt\<close> reads the sign and the first digit only; that
  digit is the first one of the shortest decimal that denotes the double, which is not
  modelled: \<open>exp_digits\<close>, a parameter, gives the result there. An infinity prints as a
  word and is read as \<^verbatim>\<open>NaN\<close>.
\<close>

definition parseInt_num :: "(rat \<Rightarrow> int) \<Rightarrow> jsnum \<Rightarrow> jsnum" where
  "parseInt_num exp_digits d =
     (case d of
        Fin x \<Rightarrow> if \<bar>x\<bar> < 10 ^ 21 then Fin x else Fin (of_int (exp_digits x))
      | _ \<Rightarrow> NaN)"

section \<open>Data model\<close>

text \<open>
  The server of \<^verbatim>\<open>src/index.mjs\<close> keeps five arrays loaded once from JSON files and one
  mutable object \<^verbatim>\<open>cart\<close> keyed by session id. The JSON files are not part of the sources;
  the shape of their records is the one the handlers read.

  A numeric field of a JSON file or of a request body is given by the literal written
  there, an integer or a decimal; the handlers see the double that literal denotes
  (\<open>fl\<close>). The fields of a cart line hold numbers as the handlers computed them. A string is
  the list of its characters.
\<close>

text \<open>
  Modelled from the spec: the record type of \<^verbatim>\<open>products.json\<close>, which is absent from the
  sources. Section 3 of the specification: id (integer), name, description, tags, category,
  subcategory, brand, price (non-negative decimal), rating, inStock (boolean), stock
  (non-negative integer), image.
\<close>

record product =
  p_id :: int
  p_name :: string
  p_description :: string
  p_tags :: "string list"
  p_category :: string
  p_subcategory :: string
  p_brand :: string
  p_price :: rat
  p_rating :: rat
  p_inStock :: bool
  p_stock :: nat
  p_image :: string

text \<open>The numbers the handlers read from a product: \<^verbatim>\<open>p.id\<close>, \<^verbatim>\<open>p.price\<close>, \<^verbatim>\<open>p.rating\<close> and
  \<^verbatim>\<open>p.stock\<close>.\<close>

definition id_of :: "product \<Rightarrow> jsnum" where
  "id_of p = num_of_int (p_id p)"

definition price_of :: "product \<Rightarrow> jsnum" where
  "price_of p = fl (p_price p)"

definition rating_of :: "product \<Rightarrow> jsnum" where
  "rating_of p = fl (p_rating p)"

definition stock_of :: "product \<Rightarrow> jsnum" where
  "stock_of p = fl (of_nat (p_stock p))"

text \<open>A cart line, as \<^verbatim>\<open>POST /api/cart/add\<close> pushes it (lines 387-393); \<open>imageRef\<close> is its
  field \<^verbatim>\<open>image\<close>.\<close>

record cart_line =
  productId :: jsnum
  name :: string
  price :: jsnum
  imageRef :: string
  quantity :: jsnum

text \<open>\<^verbatim>\<open>cart[sessionId] = { items: [], createdAt: ... }\<close>; the clock value is a parameter.\<close>

record cart_entry =
  items :: "cart_line list"
  createdAt :: string

text \<open>
  The store \<^verbatim>\<open>cart\<close> is a plain object: its own properties are the carts, by session id.
  Reading \<^verbatim>\<open>cart[sessionId]\<close> finds an own property, and otherwise a member inherited from
  \<^verbatim>\<open>Object.prototype\<close> when the session id is the name of one; such a member is a function
  or the prototype object, which is truthy and has no \<^verbatim>\<open>items\<close>.
\<close>

type_synonym carts = "string \<rightharpoonup> cart_entry"

datatype slot = Undefined | Own cart_entry | Inherited

definition object_prototype_keys :: "string list" where
  "object_prototype_keys =
     [''constructor'', ''__proto__'', ''hasOwnProperty'', ''isPrototypeOf'',
      ''propertyIsEnumerable'', ''toLocaleString'', ''toString'', ''valueOf'',
      ''__defineGetter__'', ''__defineSetter__'', ''__lookupGetter__'', ''__lookupSetter__'']"

definition cart_get :: "carts \<Rightarrow> string \<Rightarrow> slot" where
  "cart_get cart sessionId =
     (case cart sessionId of
        Some c \<Rightarrow> Own c
      | None \<Rightarrow> if sessionId \<in> set object_prototype_keys then Inherited else Undefined)"

record summary =
  subtotal :: jsnum
  itemCount :: jsnum

text \<open>The issues \<^verbatim>\<open>POST /api/cart/validate\<close> pushes (lines 537-563).\<close>

datatype issue =
  NoLongerExists jsnum
| OutOfStock jsnum string
| InsufficientStockIssue jsnum string jsnum jsnum
| PriceChanged jsnum string jsnum jsnum

text \<open>
  The failure responses of the cart handlers: \<open>BadRequest\<close> is status 400 with only an error
  message, \<open>NotFound\<close> is status 404, \<open>InsufficientStock msg available inCart\<close> is status 400
  with \<^verbatim>\<open>availableStock\<close> and, when the handler sends it, \<^verbatim>\<open>currentInCart\<close>;
  \<open>ValidationFailed\<close> is the status 400 of a validation with issues. \<open>InternalError prop\<close>
  is the status 500 of the \<^verbatim>\<open>catch\<close> block after a \<^verbatim>\<open>TypeError\<close>, the message of which names
  the property \<open>prop\<close> that was read of \<^verbatim>\<open>undefined\<close>.
\<close>

datatype error =
  BadRequest string
| NotFound string
| InsufficientStock string jsnum "jsnum option"
| InternalError string
| ValidationFailed "issue list" "cart_line list"

section \<open>Cart handlers\<close>

text \<open>The two \<^verbatim>\<open>reduce\<close> calls every cart response is built from (e.g. lines 319-320).\<close>

definition reduce_subtotal :: "cart_line list \<Rightarrow> jsnum" where
  "reduce_subtotal xs =
     foldl (\<lambda>sum item. js_add sum (js_mul (price item) (quantity item))) (Fin 0) xs"

definition reduce_itemCount :: "cart_line list \<Rightarrow> jsnum" where
  "reduce_itemCount xs = foldl (\<lambda>sum item. js_add sum (quantity item)) (Fin 0) xs"

definition summarize :: "cart_line list \<Rightarrow> summary" where
  "summarize xs = \<lparr>subtotal = toFixed2 (reduce_subtotal xs), itemCount = reduce_itemCount xs\<rparr>"

text \<open>A destructuring default (\<^verbatim>\<open>const { quantity = 1 } = req.body\<close>): the default stands in
  for an absent field only.\<close>

definition or_default :: "'a \<Rightarrow> 'a option \<Rightarrow> 'a" where
  "or_default d v = (case v of None \<Rightarrow> d | Some x \<Rightarrow> x)"

text \<open>\<^verbatim>\<open>!productId\<close> on a body field that is absent or a JSON integer: absent and \<open>0\<close> are falsy.\<close>

definition falsy :: "int option \<Rightarrow> bool" where
  "falsy v = (case v of None \<Rightarrow> True | Some n \<Rightarrow> n = 0)"

text \<open>What the handlers make of the body fields: \<^verbatim>\<open>parseInt(productId)\<close> of a present
  \<^verbatim>\<open>productId\<close>, and the \<^verbatim>\<open>quantity\<close> of the add handler with its default 1.\<close>

definition body_product_id :: "(rat \<Rightarrow> int) \<Rightarrow> int \<Rightarrow> jsnum" where
  "body_product_id exp_digits pid = parseInt_num exp_digits (num_of_int pid)"

definition body_quantity :: "int option \<Rightarrow> jsnum" where
  "body_quantity quantity_opt = or_default (Fin 1) (map_option num_of_int quantity_opt)"

text \<open>
  \<^verbatim>\<open>items.find(item => item.productId === pid)\<close> returns the first matching element of the
  array by reference, and the assignment to its \<^verbatim>\<open>quantity\<close> (lines 385 and 451) updates that
  element in place: the first line with the product id gets the new quantity.
\<close>

fun set_quantity :: "jsnum \<Rightarrow> jsnum \<Rightarrow> cart_line list \<Rightarrow> cart_line list" where
  "set_quantity pid q [] = []"
| "set_quantity pid q (item # rest) =
     (if js_seq (productId item) pid then item\<lparr>quantity := q\<rparr> # rest
      else item # set_quantity pid q rest)"

text \<open>The lines a session holds: those of its cart, none when it has no cart.\<close>

definition session_items :: "carts \<Rightarrow> string \<Rightarrow> cart_line list" where
  "session_items cart sessionId = (case cart sessionId of None \<Rightarrow> [] | Some c \<Rightarrow> items c)"

text \<open>
  \<^verbatim>\<open>GET /api/cart\<close> (lines 313-337). The session id is the value \<^verbatim>\<open>getSessionId\<close> returns
  and \<open>now\<close> the timestamp. The handler returns the items, the summary and \<^verbatim>\<open>createdAt\<close>; it
  never assigns to \<^verbatim>\<open>cart\<close>, so the store is returned as it was. For an inherited member
  \<^verbatim>\<open>userCart.items\<close> is \<^verbatim>\<open>undefined\<close> and the first \<^verbatim>\<open>reduce\<close> throws.
\<close>

definition get_cart ::
  "string \<Rightarrow> carts \<Rightarrow> string \<Rightarrow> (error + cart_line list \<times> summary \<times> string) \<times> carts" where
  "get_cart now cart sessionId =
     (case cart_get cart sessionId of
        Inherited \<Rightarrow> (Inl (InternalError ''reduce''), cart)
      | Own userCart \<Rightarrow>
          (Inr (items userCart, summarize (items userCart), createdAt userCart), cart)
      | Undefined \<Rightarrow> (Inr ([], summarize [], now), cart))"

text \<open>
  \<^verbatim>\<open>POST /api/cart/add\<close> (lines 340-414). \<open>productId_opt\<close> and \<open>quantity_opt\<close> are the body
  fields, \<open>None\<close> when absent. The cart is initialised (line 365) before the second stock
  check, and the state returned on that failure is the initialised one, as in the source.
  For an inherited member line 365 initialises nothing and \<^verbatim>\<open>items.find\<close> of line 370 throws.
\<close>

definition add_to_cart ::
  "(rat \<Rightarrow> int) \<Rightarrow> product list \<Rightarrow> string \<Rightarrow> carts \<Rightarrow> string \<Rightarrow> int option \<Rightarrow> int option
     \<Rightarrow> (error + cart_line list \<times> summary) \<times> carts" where
  "add_to_cart exp_digits products now cart sessionId productId_opt quantity_opt =
     (let qty = body_quantity quantity_opt in
      case productId_opt of
        None \<Rightarrow> (Inl (BadRequest ''productId is required''), cart)
      | Some pid \<Rightarrow>
        if falsy (Some pid) then (Inl (BadRequest ''productId is required''), cart)
        else
          case find (\<lambda>p. js_seq (id_of p) (body_product_id exp_digits pid)) products of
            None \<Rightarrow> (Inl (NotFound ''Product not found''), cart)
          | Some product \<Rightarrow>
              if \<not> p_inStock product \<or> js_lt (stock_of product) qty
              then (Inl (InsufficientStock ''Insufficient stock'' (stock_of product) None), cart)
              else
                case cart_get cart sessionId of
                  Inherited \<Rightarrow> (Inl (InternalError ''find''), cart)
                | slot \<Rightarrow>
                let entry = (case slot of
                               Own c \<Rightarrow> c
                             | _ \<Rightarrow> \<lparr>items = [], createdAt = now\<rparr>);
                    cart1 = cart(sessionId \<mapsto> entry)
                in
                  case find (\<lambda>item. js_seq (productId item) (id_of product)) (items entry) of
                    Some existingItem \<Rightarrow>
                      let newQuantity = js_add (quantity existingItem) qty in
                      if js_lt (stock_of product) newQuantity
                      then (Inl (InsufficientStock ''Insufficient stock for requested quantity''
                                   (stock_of product) (Some (quantity existingItem))), cart1)
                      else
                        let items' = set_quantity (id_of product) newQuantity (items entry)
                        in (Inr (items', summarize items'),
                            cart1(sessionId \<mapsto> entry\<lparr>items := items'\<rparr>))
                  | None \<Rightarrow>
                      let items' = items entry @
                            [\<lparr>productId = id_of product, name = p_name product,
                              price = price_of product, imageRef = p_image product,
                              quantity = qty\<rparr>]
                      in (Inr (items', summarize items'),
                          cart1(sessionId \<mapsto> entry\<lparr>items := items'\<rparr>)))"

text \<open>
  \<^verbatim>\<open>PUT /api/cart/update\<close> (lines 417-471). The product lookup of line 436 is not guarded:
  when no product has the id, reading \<^verbatim>\<open>product.stock\<close> throws, and the \<^verbatim>\<open>catch\<close> block answers
  with status 500 before anything is assigned. For an inherited member \<^verbatim>\<open>items.find\<close> of
  line 430 throws.
\<close>

definition update_cart ::
  "(rat \<Rightarrow> int) \<Rightarrow> product list \<Rightarrow> carts \<Rightarrow> string \<Rightarrow> int option \<Rightarrow> int option
     \<Rightarrow> (error + cart_line list \<times> summary) \<times> carts" where
  "update_cart exp_digits products cart sessionId productId_opt quantity_opt =
     (case (productId_opt, quantity_opt) of
        (Some pid, Some q) \<Rightarrow>
          if falsy (Some pid)
          then (Inl (BadRequest ''productId and quantity are required''), cart)
          else
            let qty = num_of_int q; parsed = body_product_id exp_digits pid in
            (case cart_get cart sessionId of
               Undefined \<Rightarrow> (Inl (NotFound ''Cart not found''), cart)
             | Inherited \<Rightarrow> (Inl (InternalError ''find''), cart)
             | Own entry \<Rightarrow>
                 (case find (\<lambda>item. js_seq (productId item) parsed) (items entry) of
                    None \<Rightarrow> (Inl (NotFound ''Item not in cart''), cart)
                  | Some cartItem \<Rightarrow>
                      (case find (\<lambda>p. js_seq (id_of p) parsed) products of
                         None \<Rightarrow> (Inl (InternalError ''stock''), cart)
                       | Some product \<Rightarrow>
                           if js_lt (stock_of product) qty
                           then (Inl (InsufficientStock ''Insufficient stock''
                                        (stock_of product) None), cart)
                           else
                             let items' =
                                   (if js_seq qty (Fin 0)
                                    then filter (\<lambda>item. \<not> js_seq (productId item) parsed)
                                           (items entry)
                                    else set_quantity parsed qty (items entry))
                             in (Inr (items', summarize items'),
                                 cart(sessionId \<mapsto> entry\<lparr>items := items'\<rparr>)))))
      | _ \<Rightarrow> (Inl (BadRequest ''productId and quantity are required''), cart))"

text \<open>
  \<^verbatim>\<open>DELETE /api/cart/remove/:productId\<close> (lines 474-502). The path parameter is a string;
  \<open>productId_parsed\<close> is the number \<^verbatim>\<open>parseInt\<close> returns on it, \<^verbatim>\<open>NaN\<close> included, which no
  \<^verbatim>\<open>item.productId\<close> is equal to. For an inherited member \<^verbatim>\<open>items.filter\<close> throws before the
  assignment.
\<close>

definition remove_from_cart ::
  "carts \<Rightarrow> string \<Rightarrow> jsnum \<Rightarrow> (error + cart_line list \<times> summary) \<times> carts" where
  "remove_from_cart cart sessionId productId_parsed =
     (case cart_get cart sessionId of
        Undefined \<Rightarrow> (Inl (NotFound ''Cart not found''), cart)
      | Inherited \<Rightarrow> (Inl (InternalError ''filter''), cart)
      | Own entry \<Rightarrow>
          let items' = filter (\<lambda>item. \<not> js_seq (productId item) productId_parsed) (items entry)
          in (Inr (items', summarize items'), cart(sessionId \<mapsto> entry\<lparr>items := items'\<rparr>)))"

text \<open>\<^verbatim>\<open>DELETE /api/cart/clear\<close> (lines 505-520): \<^verbatim>\<open>delete\<close> removes an own property and
  does nothing for an inherited member. No failure response but that of \<^verbatim>\<open>catch\<close>, which
  nothing in the body can reach.\<close>

definition clear_cart :: "carts \<Rightarrow> string \<Rightarrow> (error + unit) \<times> carts" where
  "clear_cart cart sessionId =
     (case cart_get cart sessionId of
        Undefined \<Rightarrow> (Inr (), cart)
      | _ \<Rightarrow> (Inr (), cart(sessionId := None)))"

text \<open>
  \<^verbatim>\<open>POST /api/cart/validate\<close> (lines 523-595). \<open>validate_item\<close> is the body of the
  \<^verbatim>\<open>forEach\<close> callback, with the two arrays it pushes to as the state; \<open>validate_items\<close> is
  the \<^verbatim>\<open>forEach\<close>. For an inherited member \<^verbatim>\<open>items.length\<close> of line 527 throws.
\<close>

definition validate_item ::
  "product list \<Rightarrow> issue list \<times> cart_line list \<Rightarrow> cart_line
     \<Rightarrow> issue list \<times> cart_line list" where
  "validate_item products acc cartItem =
     (case acc of (issues, validItems) \<Rightarrow>
        (case find (\<lambda>p. js_seq (id_of p) (productId cartItem)) products of
           None \<Rightarrow> (issues @ [NoLongerExists (productId cartItem)], validItems)
         | Some product \<Rightarrow>
             if \<not> p_inStock product \<or> js_seq (stock_of product) (Fin 0)
             then (issues @ [OutOfStock (productId cartItem) (name cartItem)], validItems)
             else if js_lt (stock_of product) (quantity cartItem)
             then (issues @ [InsufficientStockIssue (productId cartItem) (name cartItem)
                               (quantity cartItem) (stock_of product)], validItems)
             else if \<not> js_seq (price_of product) (price cartItem)
             then (issues @ [PriceChanged (productId cartItem) (name cartItem)
                               (price cartItem) (price_of product)],
                   validItems @ [cartItem\<lparr>price := price_of product\<rparr>])
             else (issues, validItems @ [cartItem])))"

definition validate_items ::
  "product list \<Rightarrow> cart_line list \<Rightarrow> issue list \<times> cart_line list" where
  "validate_items products xs = foldl (validate_item products) ([], []) xs"

definition validate_cart ::
  "product list \<Rightarrow> carts \<Rightarrow> string \<Rightarrow> (error + cart_line list \<times> summary) \<times> carts" where
  "validate_cart products cart sessionId =
     (case cart_get cart sessionId of
        Undefined \<Rightarrow> (Inl (BadRequest ''Cart is empty''), cart)
      | Inherited \<Rightarrow> (Inl (InternalError ''length''), cart)
      | Own entry \<Rightarrow>
          if length (items entry) = 0 then (Inl (BadRequest ''Cart is empty''), cart)
          else
            (case validate_items products (items entry) of (issues, validItems) \<Rightarrow>
               if length issues > 0 then (Inl (ValidationFailed issues validItems), cart)
               else (Inr (validItems, summarize validItems), cart)))"

section \<open>Cart states reachable through the handlers\<close>

text \<open>The cart store starts empty (line 22) and is only changed by the cart handlers.\<close>

inductive reachable :: "(rat \<Rightarrow> int) \<Rightarrow> product list \<Rightarrow> carts \<Rightarrow> bool"
  for exp_digits :: "rat \<Rightarrow> int" and products :: "product list" where
  r_init: "reachable exp_digits products Map.empty"
| r_get: "reachable exp_digits products s \<Longrightarrow>
    reachable exp_digits products (snd (get_cart now s sid))"
| r_add: "reachable exp_digits products s \<Longrightarrow>
    reachable exp_digits products (snd (add_to_cart exp_digits products now s sid pid qty))"
| r_update: "reachable exp_digits products s \<Longrightarrow>
    reachable exp_digits products (snd (update_cart exp_digits products s sid pid qty))"
| r_remove: "reachable exp_digits products s \<Longrightarrow>
    reachable exp_digits products (snd (remove_from_cart s sid rp))"
| r_clear: "reachable exp_digits products s \<Longrightarrow>
    reachable exp_digits products (snd (clear_cart s sid))"
| r_validate: "reachable exp_digits products s \<Longrightarrow>
    reachable exp_digits products (snd (validate_cart products s sid))"

text \<open>Every line of every cart names a product of the catalog.\<close>

definition lines_resolve :: "product list \<Rightarrow> carts \<Rightarrow> bool" where
  "lines_resolve products s =
     (\<forall>sid c. s sid = Some c \<longrightarrow>
        (\<forall>l \<in> set (items c). find (\<lambda>p. js_seq (id_of p) (productId l)) products \<noteq> None))"

text \<open>
  The classification of one cart line that the validation is specified to make, in the
  words of the specification: a missing product is an issue; else a product out of stock is
  an issue; else stock below the quantity is an issue reporting requested and available;
  else a changed price is an issue reporting both prices, and the line stays valid with
  the new price; else the line is valid as it is.
\<close>

definition spec_line_issue :: "product list \<Rightarrow> cart_line \<Rightarrow> issue option" where
  "spec_line_issue products l =
     (case find (\<lambda>p. js_seq (id_of p) (productId l)) products of
        None \<Rightarrow> Some (NoLongerExists (productId l))
      | Some p \<Rightarrow>
          if \<not> p_inStock p \<or> js_seq (stock_of p) (Fin 0)
          then Some (OutOfStock (productId l) (name l))
          else if js_lt (stock_of p) (quantity l)
          then Some (InsufficientStockIssue (productId l) (name l) (quantity l) (stock_of p))
          else if \<not> js_seq (price_of p) (price l)
          then Some (PriceChanged (productId l) (name l) (price l) (price_of p))
          else None)"

definition spec_line_valid :: "product list \<Rightarrow> cart_line \<Rightarrow> cart_line option" where
  "spec_line_valid products l =
     (case find (\<lambda>p. js_seq (id_of p) (productId l)) products of
        None \<Rightarrow> None
      | Some p \<Rightarrow>
          if \<not> p_inStock p \<or> js_seq (stock_of p) (Fin 0) then None
          else if js_lt (stock_of p) (quantity l) then None
          else if \<not> js_seq (price_of p) (price l) then Some (l\<lparr>price := price_of p\<rparr>)
          else Some l)"

section \<open>Query engine\<close>

text \<open>
  Query parameters arrive as strings; an absent parameter is \<open>None\<close> and takes the default
  of the destructuring pattern. A parameter read by \<^verbatim>\<open>parseFloat\<close> is given by the number its
  text denotes: \<^verbatim>\<open>NaN\<close> when it does not start with a number, an infinity, or the value of
  the decimal, which \<^verbatim>\<open>parseFloat\<close> rounds to the nearest double (\<open>js_round\<close>). A parameter
  read by \<^verbatim>\<open>parseInt\<close> is given by the integer \<^verbatim>\<open>parseInt\<close> returns, or \<^verbatim>\<open>NaN\<close>; a digit string
  beyond the range of the doubles, on which \<^verbatim>\<open>parseInt\<close> returns an infinity, is outside the
  model. The arithmetic of the handlers on these integers is written on the integers; a
  double computes it exactly up to \<open>2\<^sup>5\<^sup>3\<close> and rounds beyond. For the page numbers, page
  sizes, cursors and limits of the theorems below, which are not negative, an index that
  large is beyond the length of every array before and after rounding, and the responses
  are the same.

  \<^verbatim>\<open>String.prototype.toLowerCase\<close> and \<^verbatim>\<open>String.prototype.localeCompare\<close> are built-ins that
  depend on the Unicode tables and on the collation of the runtime; they are parameters of
  the model.
\<close>

datatype jsint = NaNi | I int

definition js_round :: "jsnum \<Rightarrow> jsnum" where
  "js_round a = (case a of Fin x \<Rightarrow> fl x | _ \<Rightarrow> a)"

text \<open>Arithmetic and comparison on \<^verbatim>\<open>parseInt\<close> results: \<^verbatim>\<open>NaN\<close> propagates, and compares
  false.\<close>

fun jsint_op :: "(int \<Rightarrow> int \<Rightarrow> int) \<Rightarrow> jsint \<Rightarrow> jsint \<Rightarrow> jsint" where
  "jsint_op f (I a) (I b) = I (f a b)"
| "jsint_op f _ _ = NaNi"

fun jsint_less :: "jsint \<Rightarrow> jsint \<Rightarrow> bool" where
  "jsint_less (I a) (I b) = (a < b)"
| "jsint_less _ _ = False"

text \<open>\<^verbatim>\<open>ToIntegerOrInfinity\<close>, which \<^verbatim>\<open>slice\<close> applies to its arguments: \<^verbatim>\<open>NaN\<close> becomes 0.\<close>

fun to_index :: "jsint \<Rightarrow> int" where
  "to_index NaNi = 0"
| "to_index (I n) = n"

text \<open>
  \<^verbatim>\<open>Array.prototype.slice(start, end)\<close>: a negative index counts from the end of the array,
  both indices are clamped to the array, and an empty range gives the empty array.
\<close>

definition js_slice :: "'a list \<Rightarrow> int \<Rightarrow> int \<Rightarrow> 'a list" where
  "js_slice xs start stop =
     (let len = int (length xs);
          k = (if start < 0 then max (len + start) 0 else min start len);
          final = (if stop < 0 then max (len + stop) 0 else min stop len)
      in take (nat (final - k)) (drop (nat k) xs))"

text \<open>\<^verbatim>\<open>String.prototype.includes\<close>: the second string occurs in the first at some position.\<close>

fun str_includes :: "string \<Rightarrow> string \<Rightarrow> bool" where
  "str_includes [] t = (t = [])"
| "str_includes (c # cs) t = (prefix t (c # cs) \<or> str_includes cs t)"

text \<open>
  \<^verbatim>\<open>Array.prototype.sort(compare)\<close>: a stable sort, modelled by insertion from the right; an
  element goes before the first element it does not compare greater than. A comparison
  that yields \<^verbatim>\<open>NaN\<close> counts as 0.
\<close>

fun nonpositive :: "jsnum \<Rightarrow> bool" where
  "nonpositive NaN = True"
| "nonpositive NegInf = True"
| "nonpositive (Fin v) = (v \<le> 0)"
| "nonpositive PosInf = False"

fun insort_by :: "('a \<Rightarrow> 'a \<Rightarrow> jsnum) \<Rightarrow> 'a \<Rightarrow> 'a list \<Rightarrow> 'a list" where
  "insort_by cmp x [] = [x]"
| "insort_by cmp x (y # ys) =
     (if nonpositive (cmp x y) then x # y # ys else y # insort_by cmp x ys)"

definition js_sort :: "('a \<Rightarrow> 'a \<Rightarrow> jsnum) \<Rightarrow> 'a list \<Rightarrow> 'a list" where
  "js_sort cmp xs = foldr (insort_by cmp) xs []"

record product_query =
  q_search :: "string option"
  q_category :: "string option"
  q_subcategory :: "string option"
  q_brand :: "string option"
  q_minPrice :: "jsnum option"
  q_maxPrice :: "jsnum option"
  q_minRating :: "jsnum option"
  q_sort :: "string option"
  q_order :: "string option"
  q_page :: "jsint option"
  q_limit :: "jsint option"
  q_inStock :: "string option"

record pagination =
  currentPage :: jsint
  totalPages :: jsnum
  totalItems :: nat
  itemsPerPage :: jsint
  hasNextPage :: bool
  hasPrevPage :: bool

text \<open>The filters of \<^verbatim>\<open>GET /api/products\<close> (lines 65-103), in the order of the source. An
  empty string is falsy, so a filter on a string parameter is skipped for \<^verbatim>\<open>''\<close> too.\<close>

definition search_filter :: "(string \<Rightarrow> string) \<Rightarrow> string \<Rightarrow> product list \<Rightarrow> product list" where
  "search_filter toLowerCase search xs =
     (if search \<noteq> [] then
        (let searchLower = toLowerCase search in
         filter (\<lambda>p. str_includes (toLowerCase (p_name p)) searchLower \<or>
                      str_includes (toLowerCase (p_description p)) searchLower \<or>
                      list_ex (\<lambda>tag. str_includes (toLowerCase tag) searchLower) (p_tags p)) xs)
      else xs)"

definition field_filter ::
  "(string \<Rightarrow> string) \<Rightarrow> (product \<Rightarrow> string) \<Rightarrow> string \<Rightarrow> product list \<Rightarrow> product list" where
  "field_filter toLowerCase field v xs =
     (if v \<noteq> [] then filter (\<lambda>p. toLowerCase (field p) = toLowerCase v) xs else xs)"

definition stock_filter :: "string \<Rightarrow> product list \<Rightarrow> product list" where
  "stock_filter inStock xs =
     (if inStock = ''true''
      then filter (\<lambda>p. p_inStock p = True \<and> js_lt (Fin 0) (stock_of p)) xs
      else if inStock = ''false''
      then filter (\<lambda>p. p_inStock p = False \<or> js_seq (stock_of p) (Fin 0)) xs
      else xs)"

definition filter_products ::
  "(string \<Rightarrow> string) \<Rightarrow> product_query \<Rightarrow> product list \<Rightarrow> product list" where
  "filter_products toLowerCase q products =
     (let search = or_default [] (q_search q);
          category = or_default [] (q_category q);
          subcategory = or_default [] (q_subcategory q);
          brand = or_default [] (q_brand q);
          minPrice = js_round (or_default (Fin 0) (q_minPrice q));
          maxPrice = js_round (or_default PosInf (q_maxPrice q));
          minRating = js_round (or_default (Fin 0) (q_minRating q));
          inStock = or_default [] (q_inStock q);
          f1 = search_filter toLowerCase search products;
          f2 = field_filter toLowerCase p_category category f1;
          f3 = field_filter toLowerCase p_subcategory subcategory f2;
          f4 = field_filter toLowerCase p_brand brand f3;
          f5 = filter (\<lambda>p. js_le minPrice (price_of p) \<and> js_le (price_of p) maxPrice) f4;
          f6 = filter (\<lambda>p. js_le minRating (rating_of p)) f5
      in stock_filter inStock f6)"

text \<open>The comparator of lines 106-120.\<close>

definition compare_products ::
  "(string \<Rightarrow> string \<Rightarrow> int) \<Rightarrow> string \<Rightarrow> string \<Rightarrow> product \<Rightarrow> product \<Rightarrow> jsnum" where
  "compare_products localeCompare sortKey order a b =
     (let comparison =
            (if sortKey = ''price'' then js_add (price_of a) (js_neg (price_of b))
             else if sortKey = ''rating'' then js_add (rating_of a) (js_neg (rating_of b))
             else num_of_int (localeCompare (p_name a) (p_name b)))
      in if order = ''desc'' then js_neg comparison else comparison)"

definition sorted_filtered ::
  "(string \<Rightarrow> string \<Rightarrow> int) \<Rightarrow> (string \<Rightarrow> string) \<Rightarrow> product_query \<Rightarrow> product list
     \<Rightarrow> product list" where
  "sorted_filtered localeCompare toLowerCase q products =
     js_sort (compare_products localeCompare (or_default ''name'' (q_sort q))
                (or_default ''asc'' (q_order q)))
       (filter_products toLowerCase q products)"

text \<open>\<^verbatim>\<open>Math.ceil(filtered.length / limitNum)\<close>, with the division by zero and by \<^verbatim>\<open>NaN\<close>.\<close>

definition total_pages :: "nat \<Rightarrow> jsint \<Rightarrow> jsnum" where
  "total_pages len limitNum =
     (case limitNum of
        NaNi \<Rightarrow> NaN
      | I l \<Rightarrow>
          if l = 0 then (if len = 0 then NaN else PosInf)
          else Fin (of_int \<lceil>(of_nat len :: rat) / of_int l\<rceil>))"

text \<open>\<^verbatim>\<open>GET /api/products\<close> (lines 48-154): the page and the pagination object.\<close>

definition get_products ::
  "(string \<Rightarrow> string \<Rightarrow> int) \<Rightarrow> (string \<Rightarrow> string) \<Rightarrow> product list \<Rightarrow> product_query
     \<Rightarrow> product list \<times> pagination" where
  "get_products localeCompare toLowerCase products q =
     (let filtered = sorted_filtered localeCompare toLowerCase q products;
          pageNum = or_default (I 1) (q_page q);
          limitNum = or_default (I 6) (q_limit q);
          startIndex = jsint_op (*) (jsint_op (-) pageNum (I 1)) limitNum;
          endIndex = jsint_op (+) startIndex limitNum;
          paginatedProducts = js_slice filtered (to_index startIndex) (to_index endIndex)
      in (paginatedProducts,
          \<lparr>currentPage = pageNum,
           totalPages = total_pages (length filtered) limitNum,
           totalItems = length filtered,
           itemsPerPage = limitNum,
           hasNextPage = jsint_less endIndex (I (int (length filtered))),
           hasPrevPage = jsint_less (I 1) pageNum\<rparr>))"

text \<open>
  The conjunction of the filters a query makes active, in the words of the
  specification: the search term in name, description or a tag; category, subcategory and
  brand equal up to case; the price in the inclusive range; the rating at least the
  minimum; the stock filter, where \<^verbatim>\<open>true\<close> asks for the flag and a positive stock and
  \<^verbatim>\<open>false\<close> for the negation of that.
\<close>

definition spec_matches :: "(string \<Rightarrow> string) \<Rightarrow> product_query \<Rightarrow> product \<Rightarrow> bool" where
  "spec_matches toLowerCase q p =
     ((case q_search q of
         None \<Rightarrow> True
       | Some s \<Rightarrow>
           s = [] \<or>
           sublist (toLowerCase s) (toLowerCase (p_name p)) \<or>
           sublist (toLowerCase s) (toLowerCase (p_description p)) \<or>
           (\<exists>tag \<in> set (p_tags p). sublist (toLowerCase s) (toLowerCase tag))) \<and>
      (case q_category q of
         None \<Rightarrow> True
       | Some c \<Rightarrow> c = [] \<or> toLowerCase (p_category p) = toLowerCase c) \<and>
      (case q_subcategory q of
         None \<Rightarrow> True
       | Some c \<Rightarrow> c = [] \<or> toLowerCase (p_subcategory p) = toLowerCase c) \<and>
      (case q_brand q of
         None \<Rightarrow> True
       | Some b \<Rightarrow> b = [] \<or> toLowerCase (p_brand p) = toLowerCase b) \<and>
      js_le (js_round (or_default (Fin 0) (q_minPrice q))) (price_of p) \<and>
      js_le (price_of p) (js_round (or_default PosInf (q_maxPrice q))) \<and>
      js_le (js_round (or_default (Fin 0) (q_minRating q))) (rating_of p) \<and>
      (q_inStock q = Some ''true'' \<longrightarrow> p_inStock p \<and> 0 < p_stock p) \<and>
      (q_inStock q = Some ''false'' \<longrightarrow> \<not> (p_inStock p \<and> 0 < p_stock p)))"

text \<open>
  Modelled from the spec: the record type of \<^verbatim>\<open>feed.json\<close>, which is absent from the sources.
  Section 3 of the specification: id, category, and a display payload.
\<close>

record feed_item =
  f_id :: int
  f_category :: string
  f_payload :: string

record feed_query =
  fq_cursor :: "jsint option"
  fq_limit :: "jsint option"
  fq_category :: "string option"

record feed_pagination =
  nextCursor :: "int option"
  hasMore :: bool
  total :: nat
  returned :: nat

definition filter_feed :: "(string \<Rightarrow> string) \<Rightarrow> feed_query \<Rightarrow> feed_item list \<Rightarrow> feed_item list" where
  "filter_feed toLowerCase q feed =
     (let category = or_default [] (fq_category q) in
      if category \<noteq> []
      then filter (\<lambda>f. toLowerCase (f_category f) = toLowerCase category) feed
      else feed)"

text \<open>\<^verbatim>\<open>GET /api/feed\<close> (lines 198-238). \<^verbatim>\<open>nextCursor\<close> is \<open>None\<close> for \<^verbatim>\<open>null\<close>.\<close>

definition get_feed ::
  "(string \<Rightarrow> string) \<Rightarrow> feed_item list \<Rightarrow> feed_query \<Rightarrow> feed_item list \<times> feed_pagination" where
  "get_feed toLowerCase feed q =
     (let cursorNum = or_default (I 0) (fq_cursor q);
          limitNum = or_default (I 6) (fq_limit q);
          filtered = filter_feed toLowerCase q feed;
          startIndex = cursorNum;
          endIndex = jsint_op (+) startIndex limitNum;
          page_items = js_slice filtered (to_index startIndex) (to_index endIndex);
          next_cursor = (if jsint_less endIndex (I (int (length filtered)))
                         then Some (to_index endIndex) else None);
          has_more = (next_cursor \<noteq> None)
      in (page_items,
          \<lparr>nextCursor = next_cursor, hasMore = has_more, total = length filtered,
           returned = length page_items\<rparr>))"

section \<open>Example data\<close>

text \<open>A small catalog and cart store on which the theorems below are instantiated.\<close>

definition ex_mug :: product where
  "ex_mug = \<lparr>p_id = 1, p_name = ''Mug'', p_description = ''Ceramic mug'',
     p_tags = [''Kitchen'', ''gift''], p_category = ''Home'', p_subcategory = ''Kitchen'',
     p_brand = ''Acme'', p_price = 1999 / 200, p_rating = 9 / 2, p_inStock = True,
     p_stock = 5, p_image = ''mug.png''\<rparr>"

definition ex_lamp :: product where
  "ex_lamp = \<lparr>p_id = 2, p_name = ''Lamp'', p_description = ''Desk lamp'',
     p_tags = [''office''], p_category = ''Home'', p_subcategory = ''Lighting'',
     p_brand = ''Bolt'', p_price = 30, p_rating = 4, p_inStock = True,
     p_stock = 2, p_image = ''lamp.png''\<rparr>"

definition ex_pen :: product where
  "ex_pen = \<lparr>p_id = 3, p_name = ''Pen'', p_description = ''Blue ink'',
     p_tags = [''office''], p_category = ''Stationery'', p_subcategory = ''Writing'',
     p_brand = ''Acme'', p_price = 2, p_rating = 3, p_inStock = False,
     p_stock = 0, p_image = ''pen.png''\<rparr>"

text \<open>A record whose flag and count disagree, which nothing in the loader rules out.\<close>

definition ex_cap :: product where
  "ex_cap = \<lparr>p_id = 4, p_name = ''Cap'', p_description = ''Summer cap'',
     p_tags = [''outdoor''], p_category = ''Clothing'', p_subcategory = ''Hats'',
     p_brand = ''Bolt'', p_price = 12, p_rating = 5, p_inStock = True,
     p_stock = 0, p_image = ''cap.png''\<rparr>"

definition ex_products :: "product list" where
  "ex_products = [ex_mug, ex_lamp, ex_pen, ex_cap]"

text \<open>No number of the examples is large enough to print in exponent notation.\<close>

definition ex_digits :: "rat \<Rightarrow> int" where
  "ex_digits x = 1"

text \<open>The line of three mugs at 9.995, the price being the double that decimal denotes.\<close>

definition ex_line :: cart_line where
  "ex_line = \<lparr>productId = Fin 1, name = ''Mug'', price = fl (1999 / 200),
     imageRef = ''mug.png'', quantity = Fin 3\<rparr>"

definition ex_carts :: carts where
  "ex_carts = [''s1'' \<mapsto> \<lparr>items = [ex_line], createdAt = ''t0''\<rparr>]"


text \<open>Queries and a feed. The collation of the examples equates all names, and their
  lower-casing is that of the ASCII letters, which is what the built-in does on the ASCII
  strings of the examples.\<close>

definition ex_localeCompare :: "string \<Rightarrow> string \<Rightarrow> int" where
  "ex_localeCompare a b = 0"

definition ex_lower_char :: "char \<Rightarrow> char" where
  "ex_lower_char c =
     (let n = (of_char c :: nat) in if 65 \<le> n \<and> n \<le> 90 then char_of (n + 32) else c)"

definition ex_toLowerCase :: "string \<Rightarrow> string" where
  "ex_toLowerCase s = map ex_lower_char s"

definition ex_no_params :: product_query where
  "ex_no_params = \<lparr>q_search = None, q_category = None, q_subcategory = None, q_brand = None,
     q_minPrice = None, q_maxPrice = None, q_minRating = None, q_sort = None, q_order = None,
     q_page = None, q_limit = None, q_inStock = None\<rparr>"

definition ex_filter_query :: product_query where
  "ex_filter_query = \<lparr>q_search = Some ''KITCHEN'', q_category = Some ''home'',
     q_subcategory = Some ''kitchen'', q_brand = Some ''ACME'', q_minPrice = Some (Fin 5),
     q_maxPrice = Some (Fin 40), q_minRating = Some (Fin 4), q_sort = Some ''price'',
     q_order = Some ''desc'', q_page = Some (I 1), q_limit = Some (I 2),
     q_inStock = Some ''true''\<rparr>"

definition ex_page_query :: product_query where
  "ex_page_query = ex_no_params\<lparr>q_sort := Some ''price'', q_page := Some (I 2),
     q_limit := Some (I 3)\<rparr>"

definition ex_feed :: "feed_item list" where
  "ex_feed =
     [\<lparr>f_id = 1, f_category = ''News'', f_payload = ''a''\<rparr>,
      \<lparr>f_id = 2, f_category = ''Sports'', f_payload = ''b''\<rparr>,
      \<lparr>f_id = 3, f_category = ''news'', f_payload = ''c''\<rparr>,
      \<lparr>f_id = 4, f_category = ''News'', f_payload = ''d''\<rparr>,
      \<lparr>f_id = 5, f_category = ''Tech'', f_payload = ''e''\<rparr>,
      \<lparr>f_id = 6, f_category = ''NEWS'', f_payload = ''f''\<rparr>,
      \<lparr>f_id = 7, f_category = ''News'', f_payload = ''g''\<rparr>]"

definition ex_feed_query :: feed_query where
  "ex_feed_query = \<lparr>fq_cursor = Some (I 1), fq_limit = Some (I 2), fq_category = Some ''news''\<rparr>"

section \<open>Properties of the numbers\<close>

lemma js_seq_iff: "js_seq a b \<longleftrightarrow> a = b \<and> a \<noteq> NaN"
  by (cases a; cases b) auto

lemma round_half_even_nonneg: "0 \<le> y \<Longrightarrow> 0 \<le> round_half_even y"
  by (auto simp: round_half_even_def Let_def)

lemma pow2_pos: "0 < pow2 e"
  by (simp add: pow2_def)


lemma fl_nonneg: "0 \<le> x \<Longrightarrow> fl x = PosInf \<or> (\<exists>y\<ge>0. fl x = Fin y)"
proof -
  assume x: "0 \<le> x"
  have "0 \<le> of_int (round_half_even (\<bar>x\<bar> / pow2 e)) * pow2 e" for e
    using round_half_even_nonneg [of "\<bar>x\<bar> / pow2 e"] pow2_pos [of e]
    by (simp add: less_imp_le)
  with x show ?thesis by (auto simp: fl_def Let_def)
qed


lemma stock_zero_or_positive: "js_seq (stock_of p) (Fin 0) \<longleftrightarrow> \<not> js_lt (Fin 0) (stock_of p)"
  using fl_nonneg [of "of_nat (p_stock p)"] by (auto simp: stock_of_def)


lemma pow2_powi: "pow2 e = 2 powi e"
  by (simp add: pow2_def power_int_def field_simps)

lemma pow2_mono: "d \<le> e \<Longrightarrow> pow2 d \<le> pow2 e"
  by (simp add: pow2_powi power_int_increasing)

lemma pow2_add: "pow2 (d + e) = pow2 d * pow2 e"
  by (simp add: pow2_powi power_int_add)

lemma bitlen_pow2:
  assumes "0 < a"
  shows "pow2 (bitlen a - 1) \<le> of_int a \<and> (of_int a :: rat) < pow2 (bitlen a)"
proof -
  have p: "0 < bitlen a" using assms bitlen_eq_zero_iff [of a] bitlen_nonneg [of a] by linarith
  from bitlen_bounds [OF assms]
  have "(of_int (2 ^ nat (bitlen a - 1)) :: rat) \<le> of_int a"
    and "(of_int a :: rat) < of_int (2 ^ nat (bitlen a))"
    by (simp_all only: of_int_le_iff of_int_less_iff)
  with p show ?thesis by (simp add: pow2_def)
qed

lemma ilog2_bounds:
  assumes "0 < x"
  shows "pow2 (ilog2 x) \<le> x \<and> x < pow2 (ilog2 x + 1)"
proof -
  obtain a b where q: "quotient_of x = (a, b)" by (cases "quotient_of x")
  then have b: "0 < b" and x: "x = of_int a / of_int b"
    using quotient_of_denom_pos quotient_of_div by blast+
  with assms have a: "0 < a" by (simp add: zero_less_divide_iff)
  let ?d = "bitlen a - bitlen b"
  note A = bitlen_pow2 [OF a] and B = bitlen_pow2 [OF b]
  have rb: "(0::rat) < of_int b" using b by simp
  have "pow2 (?d - 1) * of_int b \<le> pow2 (?d - 1) * pow2 (bitlen b)"
    using B pow2_pos [of "?d - 1"] by (simp add: less_imp_le)
  also have "\<dots> = pow2 (bitlen a - 1)" by (simp add: pow2_add [symmetric])
  also have "\<dots> \<le> of_int a" using A by simp
  finally have lo: "pow2 (?d - 1) \<le> x" using rb by (simp add: x pos_le_divide_eq)
  have "of_int a < pow2 (bitlen a)" using A by simp
  also have "\<dots> = pow2 (?d + 1) * pow2 (bitlen b - 1)" by (simp add: pow2_add [symmetric])
  also have "\<dots> \<le> pow2 (?d + 1) * of_int b"
    using B pow2_pos [of "?d + 1"] by simp
  finally have hi: "x < pow2 (?d + 1)" using rb by (simp add: x pos_divide_less_eq)
  show ?thesis
    using lo hi by (simp add: ilog2_def q Let_def not_le)
qed

lemma fl_integer_nonzero:
  assumes "1 \<le> \<bar>x\<bar>"
  shows "fl x \<noteq> Fin 0"
proof -
  let ?a = "\<bar>x\<bar>"
  let ?e = "max (ilog2 ?a) (- 1022)"
  let ?ulp = "pow2 (?e - 52)"
  let ?m = "round_half_even (?a / ?ulp)"
  have a: "0 < ?a" using assms by simp
  note I = ilog2_bounds [OF a]
  have "0 \<le> ilog2 ?a"
  proof (rule ccontr)
    assume "\<not> 0 \<le> ilog2 ?a"
    then have "pow2 (ilog2 ?a + 1) \<le> pow2 0" by (intro pow2_mono) simp
    with I assms show False by (simp add: pow2_def)
  qed
  then have e: "?e = ilog2 ?a" by simp
  have "pow2 52 * ?ulp = pow2 ?e" by (simp add: pow2_add [symmetric])
  also have "\<dots> \<le> ?a" using I e by simp
  finally have "pow2 52 \<le> ?a / ?ulp" using pow2_pos [of "?e - 52"] by (simp add: pos_le_divide_eq)
  moreover have "1 \<le> pow2 52" by (simp add: pow2_def)
  ultimately have "1 \<le> ?a / ?ulp" by (rule order_trans [rotated])
  then have "1 \<le> \<lfloor>?a / ?ulp\<rfloor>" by (simp add: le_floor_iff)
  then have m: "0 < ?m" by (simp add: round_half_even_def Let_def)
  then have "0 < of_int ?m * ?ulp" using pow2_pos [of "?e - 52"] by simp
  then show ?thesis
    using assms by (auto simp: fl_def Let_def)
qed


section \<open>Properties of the cart handlers\<close>

subsection \<open>Failed operations\<close>




lemma cart_get_Own: "cart_get cart sid = Own c \<longleftrightarrow> cart sid = Some c"
  by (auto simp: cart_get_def split: option.splits)

lemma cart_get_Undefined: "cart_get cart sid = Undefined \<Longrightarrow> cart sid = None"
  by (auto simp: cart_get_def split: option.splits)

lemma cart_get_Inherited: "cart_get cart sid = Inherited \<Longrightarrow> cart sid = None"
  by (auto simp: cart_get_def split: option.splits)

lemma add_failure_unchanged:
  "add_to_cart ed products now cart sid pid qo = (Inl e, cart') \<Longrightarrow> cart' = cart"
  by (auto simp: add_to_cart_def Let_def map_upd_triv cart_get_Own
      split: option.splits if_splits slot.splits)

lemma update_failure_unchanged:
  "update_cart ed products cart sid pid qo = (Inl e, cart') \<Longrightarrow> cart' = cart"
  by (auto simp: update_cart_def Let_def split: option.splits if_splits slot.splits)

lemma remove_failure_unchanged:
  "remove_from_cart cart sid rp = (Inl e, cart') \<Longrightarrow> cart' = cart"
  by (auto simp: remove_from_cart_def Let_def split: slot.splits)

lemma clear_succeeds: "fst (clear_cart cart sid) = Inr ()"
  by (simp add: clear_cart_def split: slot.splits)

text \<open>
  Claim C5. A failed mutating cart operation leaves the whole session-to-cart mapping as it
  was before the call: whether the session has a cart, and the lines of every cart. This
  holds from every starting state, for Add, Update and Remove; Clear has no failure
  response.
\<close>

theorem failed_mutation_keeps_cart:
  "(add_to_cart ed products now cart sid pid qo = (Inl e1, c1) \<longrightarrow> c1 = cart) \<and>
   (update_cart ed products cart sid pid qo = (Inl e2, c2) \<longrightarrow> c2 = cart) \<and>
   (remove_from_cart cart sid rp = (Inl e3, c3) \<longrightarrow> c3 = cart) \<and>
   fst (clear_cart cart sid) = Inr ()"
  by (auto dest: add_failure_unchanged update_failure_unchanged remove_failure_unchanged
      simp: clear_succeeds)

theorem failed_mutation_keeps_cart_witness:
  "fst (add_to_cart ex_digits ex_products ''t1'' ex_carts ''s1'' (Some 1) (Some 3)) =
     Inl (InsufficientStock ''Insufficient stock for requested quantity'' (Fin 5)
            (Some (Fin 3))) \<and>
   snd (add_to_cart ex_digits ex_products ''t1'' ex_carts ''s1'' (Some 1) (Some 3)) = ex_carts \<and>
   fst (update_cart ex_digits ex_products ex_carts ''s1'' (Some 1) (Some 6)) =
     Inl (InsufficientStock ''Insufficient stock'' (Fin 5) None) \<and>
   snd (update_cart ex_digits ex_products ex_carts ''s1'' (Some 1) (Some 6)) = ex_carts \<and>
   fst (remove_from_cart ex_carts ''s2'' (Fin 1)) = Inl (NotFound ''Cart not found'') \<and>
   snd (remove_from_cart ex_carts ''s2'' (Fin 1)) = ex_carts"
proof -
  have a: "fst (add_to_cart ex_digits ex_products ''t1'' ex_carts ''s1'' (Some 1) (Some 3)) =
     Inl (InsufficientStock ''Insufficient stock for requested quantity'' (Fin 5)
            (Some (Fin 3)))"
    by code_simp
  have u: "fst (update_cart ex_digits ex_products ex_carts ''s1'' (Some 1) (Some 6)) =
     Inl (InsufficientStock ''Insufficient stock'' (Fin 5) None)"
    by code_simp
  have r: "fst (remove_from_cart ex_carts ''s2'' (Fin 1)) = Inl (NotFound ''Cart not found'')"
    by code_simp
  note t = failed_mutation_keeps_cart
    [of ex_digits ex_products "''t1''" ex_carts "''s1''" "Some 1" "Some 3" _
        "snd (add_to_cart ex_digits ex_products ''t1'' ex_carts ''s1'' (Some 1) (Some 3))"]
  note t2 = failed_mutation_keeps_cart
    [of ex_digits ex_products _ ex_carts "''s1''" "Some 1" "Some 6" _ _ _
        "snd (update_cart ex_digits ex_products ex_carts ''s1'' (Some 1) (Some 6))"]
  note t3 = failed_mutation_keeps_cart
    [of _ _ _ ex_carts "''s2''" _ _ _ _ _ _ "Fin 1" _
        "snd (remove_from_cart ex_carts ''s2'' (Fin 1))"]
  have "snd (add_to_cart ex_digits ex_products ''t1'' ex_carts ''s1'' (Some 1) (Some 3)) =
      ex_carts"
    using t a by (metis prod.collapse)
  moreover have
    "snd (update_cart ex_digits ex_products ex_carts ''s1'' (Some 1) (Some 6)) = ex_carts"
    using t2 u by (metis prod.collapse)
  moreover have "snd (remove_from_cart ex_carts ''s2'' (Fin 1)) = ex_carts"
    using t3 r by (metis prod.collapse)
  ultimately show ?thesis using a u r by simp
qed

subsection \<open>Reachable carts\<close>

lemma set_quantity_pred:
  "\<forall>l \<in> set xs. P (productId l) \<Longrightarrow> \<forall>l \<in> set (set_quantity pid q xs). P (productId l)"
  by (induction xs) auto

lemma find_product_present:
  "find (\<lambda>p. js_seq (id_of p) k) products = Some product \<Longrightarrow>
   find (\<lambda>p. js_seq (id_of p) (id_of product)) products \<noteq> None"
  by (induction products) (auto simp: js_seq_iff split: if_splits)

lemma find_product_id:
  "find (\<lambda>p. js_seq (id_of p) k) products = Some p \<Longrightarrow> id_of p = k"
  by (auto simp: find_Some_iff js_seq_iff)

lemma lines_resolve_upd:
  "lines_resolve products s \<Longrightarrow>
   \<forall>l \<in> set (items c). find (\<lambda>p. js_seq (id_of p) (productId l)) products \<noteq> None \<Longrightarrow>
   lines_resolve products (s(sid \<mapsto> c))"
  by (simp add: lines_resolve_def)

lemma lines_resolve_items:
  "lines_resolve products s \<Longrightarrow> s sid = Some c \<Longrightarrow>
   \<forall>l \<in> set (items c). find (\<lambda>p. js_seq (id_of p) (productId l)) products \<noteq> None"
  by (simp add: lines_resolve_def)

lemma add_lines_resolve:
  assumes "lines_resolve products s"
  shows "lines_resolve products (snd (add_to_cart ed products now s sid pid qo))"
proof -
  define entry where
    "entry = (case cart_get s sid of Own c \<Rightarrow> c | _ \<Rightarrow> \<lparr>items = [], createdAt = now\<rparr>)"
  have e: "\<forall>l \<in> set (items entry). find (\<lambda>p. js_seq (id_of p) (productId l)) products \<noteq> None"
    using lines_resolve_items [OF assms]
    by (auto simp: entry_def cart_get_Own split: slot.splits)
  have 1: "lines_resolve products (s(sid \<mapsto> entry))"
    using assms e by (rule lines_resolve_upd)
  have 2: "lines_resolve products
             (s(sid \<mapsto> entry\<lparr>items := set_quantity k q (items entry)\<rparr>))" for k q
    using assms
      set_quantity_pred [where P = "\<lambda>i. find (\<lambda>p. js_seq (id_of p) i) products \<noteq> None", OF e]
    by (intro lines_resolve_upd) simp_all
  have 3: "lines_resolve products
             (s(sid \<mapsto> entry\<lparr>items := items entry @
                [\<lparr>productId = id_of product, name = n, price = pr, imageRef = im,
                  quantity = q\<rparr>]\<rparr>))"
    if "find (\<lambda>p. js_seq (id_of p) k) products = Some product" for k product n pr im q
    using assms e find_product_present [OF that] by (intro lines_resolve_upd) auto
  show ?thesis
  proof (cases "cart_get s sid")
    case Undefined
    with assms 1 2 3 show ?thesis
      by (simp add: add_to_cart_def Let_def entry_def split: option.splits)
  next
    case (Own c)
    with assms 1 2 3 show ?thesis
      by (simp add: add_to_cart_def Let_def entry_def split: option.splits)
  next
    case Inherited
    with assms show ?thesis
      by (simp add: add_to_cart_def Let_def split: option.splits)
  qed
qed

lemma update_lines_resolve:
  assumes "lines_resolve products s"
  shows "lines_resolve products (snd (update_cart ed products s sid pid qo))"
proof -
  have 1: "lines_resolve products (s(sid \<mapsto> c\<lparr>items := set_quantity k q (items c)\<rparr>))"
    if "s sid = Some c" for c k q
    using assms
      set_quantity_pred [where P = "\<lambda>i. find (\<lambda>p. js_seq (id_of p) i) products \<noteq> None",
        OF lines_resolve_items [OF assms that]]
    by (intro lines_resolve_upd) simp_all
  have 2: "lines_resolve products
             (s(sid \<mapsto> c\<lparr>items := filter (\<lambda>item. \<not> js_seq (productId item) k) (items c)\<rparr>))"
    if "s sid = Some c" for c k
    using assms lines_resolve_items [OF assms that] by (intro lines_resolve_upd) simp_all
  show ?thesis
    unfolding update_cart_def Let_def
    using assms 1 2 by (simp add: cart_get_Own split: option.splits slot.splits)
qed

lemma remove_lines_resolve:
  assumes "lines_resolve products s"
  shows "lines_resolve products (snd (remove_from_cart s sid rp))"
proof -
  have 2: "lines_resolve products
             (s(sid \<mapsto> c\<lparr>items := filter (\<lambda>item. \<not> js_seq (productId item) k) (items c)\<rparr>))"
    if "s sid = Some c" for c k
    using assms lines_resolve_items [OF assms that] by (intro lines_resolve_upd) simp_all
  show ?thesis
    unfolding remove_from_cart_def Let_def
    using assms 2 by (simp add: cart_get_Own split: slot.splits)
qed

lemma clear_lines_resolve:
  "lines_resolve products s \<Longrightarrow> lines_resolve products (snd (clear_cart s sid))"
  by (auto simp: clear_cart_def lines_resolve_def split: slot.splits)

lemma get_state: "snd (get_cart now s sid) = s"
  by (simp add: get_cart_def split: slot.splits)

lemma validate_state: "snd (validate_cart products s sid) = s"
  by (simp add: validate_cart_def split: slot.splits prod.splits)

lemma reachable_resolve: "reachable ed products s \<Longrightarrow> lines_resolve products s"
proof (induction rule: reachable.induct)
  case r_init
  show ?case by (simp add: lines_resolve_def)
next
  case (r_get s now sid)
  then show ?case by (simp add: get_state)
next
  case (r_add s now sid pid qty)
  then show ?case by (simp add: add_lines_resolve)
next
  case (r_update s sid pid qty)
  then show ?case by (simp add: update_lines_resolve)
next
  case (r_remove s sid rp)
  then show ?case by (simp add: remove_lines_resolve)
next
  case (r_clear s sid)
  then show ?case by (simp add: clear_lines_resolve)
next
  case (r_validate s sid)
  then show ?case by (simp add: validate_state)
qed

lemma validate_item_spec:
  "validate_item products (is, vs) x =
     (is @ (case spec_line_issue products x of None \<Rightarrow> [] | Some i \<Rightarrow> [i]),
      vs @ (case spec_line_valid products x of None \<Rightarrow> [] | Some v \<Rightarrow> [v]))"
  by (simp add: validate_item_def spec_line_issue_def spec_line_valid_def split: option.splits)

lemma validate_fold:
  "foldl (validate_item products) (is, vs) xs =
     (is @ List.map_filter (spec_line_issue products) xs,
      vs @ List.map_filter (spec_line_valid products) xs)"
proof (induction xs arbitrary: "is" vs)
  case Nil
  show ?case by (simp add: List.map_filter_simps)
next
  case (Cons x xs)
  show ?case
    by (simp add: Cons.IH validate_item_spec List.map_filter_simps split: option.splits)
qed

lemma validate_items_spec:
  "validate_items products xs =
     (List.map_filter (spec_line_issue products) xs, List.map_filter (spec_line_valid products) xs)"
  by (simp add: validate_items_def validate_fold)

lemma missing_issue_only_unresolved:
  "spec_line_issue products l = Some (NoLongerExists i) \<Longrightarrow>
   find (\<lambda>p. js_seq (id_of p) (productId l)) products = None"
  by (auto simp: spec_line_issue_def split: option.splits if_splits)

lemma set_map_filter: "set (List.map_filter f xs) = {y. \<exists>x \<in> set xs. f x = Some y}"
  by (induction xs) (auto simp: List.map_filter_simps split: option.splits)

lemma no_missing_issue:
  assumes "\<forall>l \<in> set xs. find (\<lambda>p. js_seq (id_of p) (productId l)) products \<noteq> None"
  shows "NoLongerExists i \<notin> set (List.map_filter (spec_line_issue products) xs)"
  using assms by (auto simp: set_map_filter dest!: missing_issue_only_unresolved)

lemma update_no_fault:
  assumes "lines_resolve products s"
  shows "fst (update_cart ed products s sid pid qo) \<noteq> Inl (InternalError ''stock'')"
proof
  assume "fst (update_cart ed products s sid pid qo) = Inl (InternalError ''stock'')"
  then obtain k c l where c: "s sid = Some c"
    and l: "find (\<lambda>item. js_seq (productId item) k) (items c) = Some l"
    and n: "find (\<lambda>p. js_seq (id_of p) k) products = None"
    by (auto simp: update_cart_def Let_def cart_get_Own split: option.splits if_splits slot.splits)
  from l have "l \<in> set (items c)" "productId l = k" by (auto simp: find_Some_iff js_seq_iff)
  with lines_resolve_items [OF assms c] n show False by auto
qed

lemma update_internal_cases:
  "fst (update_cart ed products s sid pid qo) = Inl (InternalError m) \<Longrightarrow>
   cart_get s sid = Inherited \<or> m = ''stock''"
  by (auto simp: update_cart_def Let_def split: option.splits if_splits slot.splits)

text \<open>
  Claim C10. In every cart state reachable through the cart handlers, every line's
  \<^verbatim>\<open>productId\<close> is the id of a product of the catalog. Hence the unguarded product lookup of
  the update handler never faults (no status 500 from reading \<^verbatim>\<open>product.stock\<close>, and no
  status 500 at all unless the session id names a member the store object inherits), and
  a failed validation never reports that a product no longer exists.
\<close>

theorem reachable_lines_resolve:
  "reachable ed products s \<Longrightarrow>
     lines_resolve products s \<and>
     fst (update_cart ed products s sid pid qo) \<noteq> Inl (InternalError ''stock'') \<and>
     (cart_get s sid \<noteq> Inherited \<longrightarrow>
        (\<forall>m. fst (update_cart ed products s sid pid qo) \<noteq> Inl (InternalError m))) \<and>
     (\<forall>issues valid i. fst (validate_cart products s sid) = Inl (ValidationFailed issues valid)
        \<longrightarrow> NoLongerExists i \<notin> set issues)"
proof -
  assume r: "reachable ed products s"
  then have inv: "lines_resolve products s" by (rule reachable_resolve)
  have "NoLongerExists i \<notin> set issues"
    if "fst (validate_cart products s sid) = Inl (ValidationFailed issues valid)"
    for issues valid i
  proof -
    from that obtain c where c: "s sid = Some c"
      and i: "issues = List.map_filter (spec_line_issue products) (items c)"
      by (auto simp: validate_cart_def validate_items_spec cart_get_Own
          split: slot.splits if_splits)
    show ?thesis unfolding i
      by (rule no_missing_issue) (rule lines_resolve_items [OF inv c])
  qed
  moreover have "fst (update_cart ed products s sid pid qo) \<noteq> Inl (InternalError m)"
    if "cart_get s sid \<noteq> Inherited" for m
    using update_internal_cases [of ed products s sid pid qo m] that
      update_no_fault [OF inv, of ed sid pid qo]
    by blast
  ultimately show ?thesis using inv update_no_fault [OF inv] by blast
qed

subsection \<open>Adding a product\<close>

lemma falsy_Some: "falsy (Some pid) = (pid = 0)"
  by (simp add: falsy_def)







lemma add_new_line:
  assumes "pid \<noteq> 0" "find (\<lambda>p. js_seq (id_of p) (body_product_id ed pid)) products = Some p"
    "p_inStock p" "\<not> js_lt (stock_of p) (body_quantity qo)"
    "cart_get cart sid \<noteq> Inherited"
    "find (\<lambda>i. js_seq (productId i) (id_of p)) (session_items cart sid) = None"
  shows "add_to_cart ed products now cart sid (Some pid) qo =
           (Inr (session_items cart sid @
                   [\<lparr>productId = id_of p, name = p_name p, price = price_of p,
                     imageRef = p_image p, quantity = body_quantity qo\<rparr>],
                 summarize (session_items cart sid @
                   [\<lparr>productId = id_of p, name = p_name p, price = price_of p,
                     imageRef = p_image p, quantity = body_quantity qo\<rparr>])),
            cart(sid \<mapsto>
              \<lparr>items = session_items cart sid @
                   [\<lparr>productId = id_of p, name = p_name p, price = price_of p,
                     imageRef = p_image p, quantity = body_quantity qo\<rparr>],
               createdAt = (case cart sid of None \<Rightarrow> now | Some c \<Rightarrow> createdAt c)\<rparr>))"
proof (cases "cart_get cart sid")
  case Undefined
  then have "cart sid = None" by (rule cart_get_Undefined)
  with assms Undefined show ?thesis
    by (simp add: add_to_cart_def falsy_Some Let_def session_items_def)
next
  case (Own c)
  then have "cart sid = Some c" by (simp add: cart_get_Own)
  with assms Own show ?thesis
    by (cases c) (simp add: add_to_cart_def falsy_Some Let_def session_items_def)
next
  case Inherited
  with assms(5) show ?thesis by simp
qed






subsection \<open>Update\<close>













theorem reachable_lines_resolve_witness:
  "reachable ex_digits ex_products ex_carts \<and>
   lines_resolve ex_products ex_carts \<and>
   fst (update_cart ex_digits ex_products ex_carts ''s1'' (Some 1) (Some 2)) \<noteq>
     Inl (InternalError ''stock'') \<and>
   (\<forall>m. fst (update_cart ex_digits ex_products ex_carts ''s1'' (Some 9) (Some 2)) \<noteq>
     Inl (InternalError m)) \<and>
   reachable ex_digits ex_products
     (snd (add_to_cart ex_digits ex_products ''t1'' ex_carts ''s1'' (Some 4) (Some 0))) \<and>
   fst (validate_cart ex_products
          (snd (add_to_cart ex_digits ex_products ''t1'' ex_carts ''s1'' (Some 4) (Some 0)))
          ''s1'') =
     Inl (ValidationFailed [OutOfStock (Fin 4) ''Cap''] [ex_line]) \<and>
   NoLongerExists (Fin 4) \<notin> set [OutOfStock (Fin 4) ''Cap'']"
proof -
  let ?cap = "\<lparr>productId = id_of ex_cap, name = p_name ex_cap, price = price_of ex_cap,
     imageRef = p_image ex_cap, quantity = body_quantity (Some 0)\<rparr>"
  have f1: "find (\<lambda>p. js_seq (id_of p) (body_product_id ex_digits 1)) ex_products = Some ex_mug"
    by code_simp
  have m: "p_inStock ex_mug" "\<not> js_lt (stock_of ex_mug) (body_quantity (Some 3))"
    by code_simp+
  have e: "cart_get Map.empty ''s1'' \<noteq> Inherited" by code_simp
  have n: "find (\<lambda>i. js_seq (productId i) (id_of ex_mug)) (session_items Map.empty ''s1'') = None"
    by (simp add: session_items_def)
  have l: "\<lparr>productId = id_of ex_mug, name = p_name ex_mug, price = price_of ex_mug,
      imageRef = p_image ex_mug, quantity = body_quantity (Some 3)\<rparr> = ex_line"
    by code_simp
  have "snd (add_to_cart ex_digits ex_products ''t0'' Map.empty ''s1'' (Some 1) (Some 3)) =
      ex_carts"
    by (simp add: add_new_line [OF _ f1 m e n] l session_items_def ex_carts_def)
  with r_add [OF r_init, of ex_digits ex_products "''t0''" "''s1''" "Some 1" "Some 3"]
  have r1: "reachable ex_digits ex_products ex_carts" by simp
  then have r2: "reachable ex_digits ex_products
      (snd (add_to_cart ex_digits ex_products ''t1'' ex_carts ''s1'' (Some 4) (Some 0)))"
    by (rule r_add)
  have f4: "find (\<lambda>p. js_seq (id_of p) (body_product_id ex_digits 4)) ex_products = Some ex_cap"
    by code_simp
  have c: "p_inStock ex_cap" "\<not> js_lt (stock_of ex_cap) (body_quantity (Some 0))"
    by code_simp+
  have e1: "cart_get ex_carts ''s1'' \<noteq> Inherited" by code_simp
  have n1: "find (\<lambda>i. js_seq (productId i) (id_of ex_cap)) (session_items ex_carts ''s1'') = None"
    by code_simp
  have s1: "session_items ex_carts ''s1'' = [ex_line]" by code_simp
  have c1: "ex_carts ''s1'' = Some \<lparr>items = [ex_line], createdAt = ''t0''\<rparr>"
    by (simp add: ex_carts_def)
  have s2: "snd (add_to_cart ex_digits ex_products ''t1'' ex_carts ''s1'' (Some 4) (Some 0)) ''s1'' =
      Some \<lparr>items = [ex_line, ?cap], createdAt = ''t0''\<rparr>"
    by (simp add: add_new_line [OF _ f4 c e1 n1] s1 c1)
  have vi: "validate_items ex_products [ex_line, ?cap] = ([OutOfStock (Fin 4) ''Cap''], [ex_line])"
    by code_simp
  have v: "fst (validate_cart ex_products
          (snd (add_to_cart ex_digits ex_products ''t1'' ex_carts ''s1'' (Some 4) (Some 0)))
          ''s1'') =
     Inl (ValidationFailed [OutOfStock (Fin 4) ''Cap''] [ex_line])"
    by (simp add: validate_cart_def cart_get_def s2 vi)
  from reachable_lines_resolve [OF r1, of "''s1''" "Some 1" "Some 2"]
    reachable_lines_resolve [OF r1, of "''s1''" "Some 9" "Some 2"] e1
    reachable_lines_resolve [OF r2, of "''s1''"] r1 r2 v
  show ?thesis by auto
qed

text \<open>
  Claim C9. The add handler checks the requested quantity against the stock from above
  only. A request with quantity 0, or with a negative quantity, for a product in stock
  passes both stock checks and leaves a line with that quantity in a reachable cart.
\<close>

theorem add_accepts_nonpositive_quantity:
  "add_to_cart ex_digits ex_products ''t1'' Map.empty ''s2'' (Some 1) (Some 0) =
     (Inr ([\<lparr>productId = Fin 1, name = ''Mug'', price = fl (1999 / 200), imageRef = ''mug.png'',
              quantity = Fin 0\<rparr>], \<lparr>subtotal = Fin 0, itemCount = Fin 0\<rparr>),
      [''s2'' \<mapsto> \<lparr>items = [\<lparr>productId = Fin 1, name = ''Mug'', price = fl (1999 / 200),
                 imageRef = ''mug.png'', quantity = Fin 0\<rparr>], createdAt = ''t1''\<rparr>]) \<and>
   reachable ex_digits ex_products
     (snd (add_to_cart ex_digits ex_products ''t1'' Map.empty ''s2'' (Some 1) (Some 0))) \<and>
   add_to_cart ex_digits ex_products ''t1'' Map.empty ''s2'' (Some 1) (Some (- 2)) =
     (Inr ([\<lparr>productId = Fin 1, name = ''Mug'', price = fl (1999 / 200), imageRef = ''mug.png'',
              quantity = Fin (- 2)\<rparr>],
           \<lparr>subtotal = fl (- (1999 / 100)), itemCount = Fin (- 2)\<rparr>),
      [''s2'' \<mapsto> \<lparr>items = [\<lparr>productId = Fin 1, name = ''Mug'', price = fl (1999 / 200),
                 imageRef = ''mug.png'', quantity = Fin (- 2)\<rparr>], createdAt = ''t1''\<rparr>]) \<and>
   reachable ex_digits ex_products
     (snd (add_to_cart ex_digits ex_products ''t1'' Map.empty ''s2'' (Some 1) (Some (- 2))))"
proof -
  have f1: "find (\<lambda>p. js_seq (id_of p) (body_product_id ex_digits 1)) ex_products = Some ex_mug"
    by code_simp
  have m: "p_inStock ex_mug" by code_simp
  have q0: "\<not> js_lt (stock_of ex_mug) (body_quantity (Some 0))" by code_simp
  have q2: "\<not> js_lt (stock_of ex_mug) (body_quantity (Some (- 2)))" by code_simp
  have e: "cart_get Map.empty ''s2'' \<noteq> Inherited" by code_simp
  have n: "find (\<lambda>i. js_seq (productId i) (id_of ex_mug)) (session_items Map.empty ''s2'') = None"
    by (simp add: session_items_def)
  have l0: "\<lparr>productId = id_of ex_mug, name = p_name ex_mug, price = price_of ex_mug,
      imageRef = p_image ex_mug, quantity = body_quantity (Some 0)\<rparr> =
      \<lparr>productId = Fin 1, name = ''Mug'', price = fl (1999 / 200), imageRef = ''mug.png'',
              quantity = Fin 0\<rparr>"
    by code_simp
  have l2: "\<lparr>productId = id_of ex_mug, name = p_name ex_mug, price = price_of ex_mug,
      imageRef = p_image ex_mug, quantity = body_quantity (Some (- 2))\<rparr> =
      \<lparr>productId = Fin 1, name = ''Mug'', price = fl (1999 / 200), imageRef = ''mug.png'',
              quantity = Fin (- 2)\<rparr>"
    by code_simp
  have u0: "summarize [\<lparr>productId = Fin 1, name = ''Mug'', price = fl (1999 / 200),
      imageRef = ''mug.png'', quantity = Fin 0\<rparr>] = \<lparr>subtotal = Fin 0, itemCount = Fin 0\<rparr>"
    by code_simp
  have u2: "summarize [\<lparr>productId = Fin 1, name = ''Mug'', price = fl (1999 / 200),
      imageRef = ''mug.png'', quantity = Fin (- 2)\<rparr>] =
      \<lparr>subtotal = fl (- (1999 / 100)), itemCount = Fin (- 2)\<rparr>"
    by code_simp
  have a: "add_to_cart ex_digits ex_products ''t1'' Map.empty ''s2'' (Some 1) (Some 0) =
     (Inr ([\<lparr>productId = Fin 1, name = ''Mug'', price = fl (1999 / 200), imageRef = ''mug.png'',
              quantity = Fin 0\<rparr>], \<lparr>subtotal = Fin 0, itemCount = Fin 0\<rparr>),
      [''s2'' \<mapsto> \<lparr>items = [\<lparr>productId = Fin 1, name = ''Mug'', price = fl (1999 / 200),
                 imageRef = ''mug.png'', quantity = Fin 0\<rparr>], createdAt = ''t1''\<rparr>])"
    by (simp add: add_new_line [OF _ f1 m q0 e n] session_items_def l0 u0)
  have b: "add_to_cart ex_digits ex_products ''t1'' Map.empty ''s2'' (Some 1) (Some (- 2)) =
     (Inr ([\<lparr>productId = Fin 1, name = ''Mug'', price = fl (1999 / 200), imageRef = ''mug.png'',
              quantity = Fin (- 2)\<rparr>],
           \<lparr>subtotal = fl (- (1999 / 100)), itemCount = Fin (- 2)\<rparr>),
      [''s2'' \<mapsto> \<lparr>items = [\<lparr>productId = Fin 1, name = ''Mug'', price = fl (1999 / 200),
                 imageRef = ''mug.png'', quantity = Fin (- 2)\<rparr>], createdAt = ''t1''\<rparr>])"
    by (simp add: add_new_line [OF _ f1 m q2 e n] session_items_def l2 u2)
  show ?thesis
    using a b r_add [OF r_init, of ex_digits ex_products "''t1''" "''s2''" "Some 1" "Some 0"]
      r_add [OF r_init, of ex_digits ex_products "''t1''" "''s2''" "Some 1" "Some (- 2)"]
    by simp
qed

theorem add_accepts_nonpositive_quantity_witness:
  "map quantity
     (session_items
        (snd (add_to_cart ex_digits ex_products ''t1'' Map.empty ''s2'' (Some 1) (Some 0)))
        ''s2'') = [Fin 0] \<and>
   map quantity
     (session_items
        (snd (add_to_cart ex_digits ex_products ''t1'' Map.empty ''s2'' (Some 1) (Some (- 2))))
        ''s2'') = [Fin (- 2)]"
  using add_accepts_nonpositive_quantity by (simp add: session_items_def)

subsection \<open>Validation\<close>

text \<open>For a session id that names no inherited member, the validation is the
  classification of the specification, line by line, and never changes the store.\<close>

lemma validate_cart_result:
  "cart_get cart sid \<noteq> Inherited \<Longrightarrow>
   validate_cart products cart sid =
     (if session_items cart sid = [] then Inl (BadRequest ''Cart is empty'')
      else if List.map_filter (spec_line_issue products) (session_items cart sid) \<noteq> []
      then Inl (ValidationFailed
                  (List.map_filter (spec_line_issue products) (session_items cart sid))
                  (List.map_filter (spec_line_valid products) (session_items cart sid)))
      else Inr (List.map_filter (spec_line_valid products) (session_items cart sid),
                summarize (List.map_filter (spec_line_valid products) (session_items cart sid))),
      cart)"
  by (auto simp: validate_cart_def session_items_def validate_items_spec cart_get_def
      split: option.splits)

lemma no_issue_valid:
  "spec_line_issue products l = None \<Longrightarrow> spec_line_valid products l = Some l"
  by (auto simp: spec_line_issue_def spec_line_valid_def split: option.splits if_splits)

lemma no_issues_all_valid:
  "List.map_filter (spec_line_issue products) xs = [] \<Longrightarrow>
   List.map_filter (spec_line_valid products) xs = xs"
proof (induction xs)
  case Nil
  show ?case by (simp add: List.map_filter_simps)
next
  case (Cons x xs)
  from Cons.prems have n: "spec_line_issue products x = None"
    and r: "List.map_filter (spec_line_issue products) xs = []"
    by (auto simp: List.map_filter_simps split: option.splits)
  from no_issue_valid [OF n] Cons.IH [OF r] show ?case
    by (simp add: List.map_filter_simps)
qed

text \<open>
  Claim C4. The cart store is a plain object, and \<^verbatim>\<open>cart[sessionId]\<close> finds the members it
  inherits as well as the carts stored in it. In the initial store a client whose session
  id is \<open>constructor\<close> has no cart, and the validation of its cart does not answer
  \<open>Cart is empty\<close>: reading \<^verbatim>\<open>items.length\<close> of the inherited member throws, and the handler
  answers with status 500.
\<close>

theorem validate_inherited_member:
  "Map.empty ''constructor'' = None \<and>
   session_items Map.empty ''constructor'' = [] \<and>
   reachable ex_digits ex_products Map.empty \<and>
   validate_cart ex_products Map.empty ''constructor'' =
     (Inl (InternalError ''length''), Map.empty)"
proof -
  have "cart_get Map.empty ''constructor'' = Inherited" by code_simp
  then have "validate_cart ex_products Map.empty ''constructor'' =
     (Inl (InternalError ''length''), Map.empty)"
    by (simp add: validate_cart_def)
  then show ?thesis by (simp add: session_items_def r_init)
qed

theorem validate_inherited_member_witness:
  "fst (validate_cart ex_products Map.empty ''constructor'') \<noteq>
     Inl (BadRequest ''Cart is empty'')"
  using validate_inherited_member by simp

subsection \<open>Reading the cart\<close>

text \<open>For a session id that names no inherited member, the response holds the lines of the
  session, the summary computed from them, and the store is as it was; the summary of no
  lines is zero twice.\<close>

lemma get_cart_result:
  "cart_get cart sid \<noteq> Inherited \<Longrightarrow>
   get_cart now cart sid =
     (Inr (session_items cart sid, summarize (session_items cart sid),
           (case cart sid of None \<Rightarrow> now | Some c \<Rightarrow> createdAt c)), cart)"
  by (auto simp: get_cart_def session_items_def cart_get_def split: option.splits)

lemma summarize_Nil: "summarize [] = \<lparr>subtotal = Fin 0, itemCount = Fin 0\<rparr>"
  by code_simp

text \<open>Three mugs at 9.995: the product of the doubles is below 29.985, and the subtotal
  is 29.98.\<close>

lemma get_cart_example:
  "get_cart ''t1'' ex_carts ''s1'' =
     (Inr ([ex_line], \<lparr>subtotal = fl (1499 / 50), itemCount = Fin 3\<rparr>, ''t0''), ex_carts)"
proof -
  have "cart_get ex_carts ''s1'' \<noteq> Inherited" by code_simp
  moreover have "session_items ex_carts ''s1'' = [ex_line]" by code_simp
  moreover have "summarize [ex_line] = \<lparr>subtotal = fl (1499 / 50), itemCount = Fin 3\<rparr>"
    by code_simp
  moreover have "ex_carts ''s1'' = Some \<lparr>items = [ex_line], createdAt = ''t0''\<rparr>"
    by (simp add: ex_carts_def)
  ultimately show ?thesis by (simp add: get_cart_result)
qed

text \<open>
  Claim C8. In the initial store a client whose session id is \<open>constructor\<close> has no cart.
  Reading its cart does not return the empty cart: \<^verbatim>\<open>cart[sessionId]\<close> is the inherited
  member, which has no \<^verbatim>\<open>items\<close>, the first \<^verbatim>\<open>reduce\<close> throws, and the handler answers with
  status 500.
\<close>

theorem get_cart_inherited_member:
  "Map.empty ''constructor'' = None \<and>
   session_items Map.empty ''constructor'' = [] \<and>
   reachable ex_digits ex_products Map.empty \<and>
   get_cart ''t1'' Map.empty ''constructor'' = (Inl (InternalError ''reduce''), Map.empty)"
proof -
  have "cart_get Map.empty ''constructor'' = Inherited" by code_simp
  then have "get_cart ''t1'' Map.empty ''constructor'' =
      (Inl (InternalError ''reduce''), Map.empty)"
    by (simp add: get_cart_def)
  then show ?thesis by (simp add: session_items_def r_init)
qed

theorem get_cart_inherited_member_witness:
  "fst (get_cart ''t1'' Map.empty ''constructor'') \<noteq>
     Inr ([], \<lparr>subtotal = Fin 0, itemCount = Fin 0\<rparr>, ''t1'')"
  using get_cart_inherited_member by simp

section \<open>Properties of the query engine\<close>

lemma str_includes_sublist: "str_includes s t = sublist t s"
  by (induction s) (auto simp: sublist_Cons_right)

lemma set_insort_by: "set (insort_by cmp x ys) = insert x (set ys)"
  by (induction ys) auto

lemma set_js_sort: "set (js_sort cmp xs) = set xs"
  by (induction xs) (simp_all add: js_sort_def set_insort_by)

lemma length_insort_by: "length (insort_by cmp x ys) = Suc (length ys)"
  by (induction ys) auto

lemma length_js_sort: "length (js_sort cmp xs) = length xs"
  by (induction xs) (simp_all add: js_sort_def length_insort_by)

lemma set_js_slice: "set (js_slice xs a b) \<subseteq> set xs"
proof -
  have "set (take n (drop k xs)) \<subseteq> set xs" for n k
    using set_take_subset set_drop_subset by fast
  then show ?thesis by (simp add: js_slice_def Let_def)
qed

lemma js_slice_nonneg:
  "0 \<le> a \<Longrightarrow> 0 \<le> n \<Longrightarrow> js_slice xs a (a + n) = take (nat n) (drop (nat a) xs)"
proof -
  assume a: "0 \<le> a" and n: "0 \<le> n"
  let ?len = "int (length xs)"
  show ?thesis
  proof (cases "a \<le> ?len")
    case True
    have "take (nat (min (a + n) ?len - a)) (drop (nat a) xs) = take (nat n) (drop (nat a) xs)"
    proof (cases "a + n \<le> ?len")
      case True
      then show ?thesis by (simp add: min_def)
    next
      case False
      then have "length (drop (nat a) xs) \<le> nat (?len - a)" "nat (?len - a) \<le> nat n"
        using a by auto
      with False show ?thesis by (simp add: min_def)
    qed
    with True a n show ?thesis by (simp add: js_slice_def Let_def min_def)
  next
    case False
    with a n show ?thesis by (simp add: js_slice_def Let_def min_def)
  qed
qed

text \<open>The stock a handler reads is above 0 exactly when the stock of the record is.\<close>

lemma stock_positive: "js_lt (Fin 0) (stock_of p) \<longleftrightarrow> 0 < p_stock p"
proof (cases "p_stock p = 0")
  case True
  then show ?thesis by (simp add: stock_of_def fl_def)
next
  case False
  then have "1 \<le> \<bar>of_nat (p_stock p) :: rat\<bar>" by simp
  from fl_integer_nonzero [OF this] have "stock_of p \<noteq> Fin 0" by (simp add: stock_of_def)
  with stock_zero_or_positive [of p] False show ?thesis
    by (cases "stock_of p") (auto simp: js_seq_iff)
qed

lemma search_filter_eq:
  "search_filter toLowerCase s xs =
     filter (\<lambda>p. s = [] \<or>
        sublist (toLowerCase s) (toLowerCase (p_name p)) \<or>
        sublist (toLowerCase s) (toLowerCase (p_description p)) \<or>
        (\<exists>tag \<in> set (p_tags p). sublist (toLowerCase s) (toLowerCase tag))) xs"
  by (auto simp: search_filter_def Let_def str_includes_sublist list_ex_iff intro: filter_cong)

lemma field_filter_eq:
  "field_filter toLowerCase f v xs =
     filter (\<lambda>p. v = [] \<or> toLowerCase (f p) = toLowerCase v) xs"
  by (auto simp: field_filter_def intro: filter_cong)

lemma stock_filter_eq:
  "stock_filter v xs =
     filter (\<lambda>p. (v = ''true'' \<longrightarrow> p_inStock p \<and> 0 < p_stock p) \<and>
                  (v = ''false'' \<longrightarrow> \<not> (p_inStock p \<and> 0 < p_stock p))) xs"
  by (auto simp: stock_filter_def stock_positive stock_zero_or_positive intro: filter_cong)

lemma filter_products_spec:
  "filter_products toLowerCase q products = filter (spec_matches toLowerCase q) products"
  unfolding filter_products_def Let_def search_filter_eq field_filter_eq stock_filter_eq
    filter_filter
  by (rule filter_cong) (auto simp: spec_matches_def or_default_def split: option.splits)

lemma filter_products_stock:
  "filter_products toLowerCase (q\<lparr>q_inStock := Some v\<rparr>) products =
     stock_filter v (filter_products toLowerCase (q\<lparr>q_inStock := None\<rparr>) products)"
  by (simp add: filter_products_def Let_def or_default_def stock_filter_def)

lemma page_subset_filtered:
  "set (fst (get_products localeCompare toLowerCase products q))
     \<subseteq> set (filter_products toLowerCase q products)"
proof -
  have "set (fst (get_products localeCompare toLowerCase products q))
          \<subseteq> set (sorted_filtered localeCompare toLowerCase q products)"
    by (simp add: get_products_def Let_def set_js_slice)
  then show ?thesis by (simp add: sorted_filtered_def set_js_sort)
qed

text \<open>
  Claim C1. The filtered sequence of \<^verbatim>\<open>GET /api/products\<close> is the catalog restricted to the
  products that pass every active filter, in catalog order, and every product of the
  returned page is one of them: a given (non-empty) search term occurs, after lower-casing
  both, in the name, the description or a tag; a given category, subcategory or brand
  equals the product's field after lower-casing both; the price is at least \<^verbatim>\<open>minPrice\<close>
  (default 0) and at most \<^verbatim>\<open>maxPrice\<close> (default infinity); the rating is at least
  \<^verbatim>\<open>minRating\<close> (default 0); with \<^verbatim>\<open>inStock=true\<close> the product is flagged in stock and has
  stock above 0. A query with \<^verbatim>\<open>inStock=true\<close> selects, of what the other filters leave,
  exactly the products flagged in stock with stock above 0, and the query with
  \<^verbatim>\<open>inStock=false\<close> exactly the others.
\<close>

theorem page_satisfies_filters:
  "filter_products toLowerCase q products = filter (spec_matches toLowerCase q) products \<and>
   (p \<in> set (fst (get_products localeCompare toLowerCase products q)) \<longrightarrow>
      p \<in> set products \<and> spec_matches toLowerCase q p \<and>
      (q_search q = Some s \<and> s \<noteq> [] \<longrightarrow>
         sublist (toLowerCase s) (toLowerCase (p_name p)) \<or>
         sublist (toLowerCase s) (toLowerCase (p_description p)) \<or>
         (\<exists>tag \<in> set (p_tags p). sublist (toLowerCase s) (toLowerCase tag))) \<and>
      (q_category q = Some c \<and> c \<noteq> [] \<longrightarrow> toLowerCase (p_category p) = toLowerCase c) \<and>
      (q_subcategory q = Some sc \<and> sc \<noteq> [] \<longrightarrow>
         toLowerCase (p_subcategory p) = toLowerCase sc) \<and>
      (q_brand q = Some b \<and> b \<noteq> [] \<longrightarrow> toLowerCase (p_brand p) = toLowerCase b) \<and>
      (q_minPrice q = None \<longrightarrow> js_le (Fin 0) (price_of p)) \<and>
      (q_minPrice q = Some (Fin lo) \<longrightarrow> js_le (fl lo) (price_of p)) \<and>
      (q_maxPrice q = Some (Fin hi) \<longrightarrow> js_le (price_of p) (fl hi)) \<and>
      (q_minRating q = None \<longrightarrow> js_le (Fin 0) (rating_of p)) \<and>
      (q_minRating q = Some (Fin r) \<longrightarrow> js_le (fl r) (rating_of p)) \<and>
      (q_inStock q = Some ''true'' \<longrightarrow> p_inStock p \<and> 0 < p_stock p) \<and>
      (q_inStock q = Some ''false'' \<longrightarrow> \<not> (p_inStock p \<and> 0 < p_stock p))) \<and>
   filter_products toLowerCase (q\<lparr>q_inStock := Some ''true''\<rparr>) products =
     filter (\<lambda>p. p_inStock p \<and> 0 < p_stock p)
       (filter_products toLowerCase (q\<lparr>q_inStock := None\<rparr>) products) \<and>
   filter_products toLowerCase (q\<lparr>q_inStock := Some ''false''\<rparr>) products =
     filter (\<lambda>p. \<not> (p_inStock p \<and> 0 < p_stock p))
       (filter_products toLowerCase (q\<lparr>q_inStock := None\<rparr>) products)"
proof (intro conjI impI)
  show "filter_products toLowerCase q products = filter (spec_matches toLowerCase q) products"
    by (rule filter_products_spec)
next
  show "filter_products toLowerCase (q\<lparr>q_inStock := Some ''true''\<rparr>) products =
     filter (\<lambda>p. p_inStock p \<and> 0 < p_stock p)
       (filter_products toLowerCase (q\<lparr>q_inStock := None\<rparr>) products)"
    by (simp add: filter_products_stock stock_filter_eq)
next
  show "filter_products toLowerCase (q\<lparr>q_inStock := Some ''false''\<rparr>) products =
     filter (\<lambda>p. \<not> (p_inStock p \<and> 0 < p_stock p))
       (filter_products toLowerCase (q\<lparr>q_inStock := None\<rparr>) products)"
    by (simp add: filter_products_stock stock_filter_eq)
next
  assume "p \<in> set (fst (get_products localeCompare toLowerCase products q))"
  with page_subset_filtered have "p \<in> set (filter_products toLowerCase q products)" by blast
  then have m: "p \<in> set products" and f: "spec_matches toLowerCase q p"
    by (simp_all add: filter_products_spec)
  show "p \<in> set products" by (rule m)
  show "spec_matches toLowerCase q p" by (rule f)
  {
    assume "q_search q = Some s \<and> s \<noteq> []"
    with f show "sublist (toLowerCase s) (toLowerCase (p_name p)) \<or>
         sublist (toLowerCase s) (toLowerCase (p_description p)) \<or>
         (\<exists>tag \<in> set (p_tags p). sublist (toLowerCase s) (toLowerCase tag))"
      by (simp add: spec_matches_def)
  }
  {
    assume "q_category q = Some c \<and> c \<noteq> []"
    with f show "toLowerCase (p_category p) = toLowerCase c" by (simp add: spec_matches_def)
  }
  {
    assume "q_subcategory q = Some sc \<and> sc \<noteq> []"
    with f show "toLowerCase (p_subcategory p) = toLowerCase sc"
      by (simp add: spec_matches_def)
  }
  {
    assume "q_brand q = Some b \<and> b \<noteq> []"
    with f show "toLowerCase (p_brand p) = toLowerCase b" by (simp add: spec_matches_def)
  }
  {
    assume "q_minPrice q = None"
    with f show "js_le (Fin 0) (price_of p)"
      by (simp add: spec_matches_def or_default_def js_round_def fl_def)
  }
  {
    assume "q_minPrice q = Some (Fin lo)"
    with f show "js_le (fl lo) (price_of p)"
      by (simp add: spec_matches_def or_default_def js_round_def)
  }
  {
    assume "q_maxPrice q = Some (Fin hi)"
    with f show "js_le (price_of p) (fl hi)"
      by (simp add: spec_matches_def or_default_def js_round_def)
  }
  {
    assume "q_minRating q = None"
    with f show "js_le (Fin 0) (rating_of p)"
      by (simp add: spec_matches_def or_default_def js_round_def fl_def)
  }
  {
    assume "q_minRating q = Some (Fin r)"
    with f show "js_le (fl r) (rating_of p)"
      by (simp add: spec_matches_def or_default_def js_round_def)
  }
  {
    assume "q_inStock q = Some ''true''"
    with f show "p_inStock p" "0 < p_stock p" by (simp_all add: spec_matches_def)
  }
  {
    assume "q_inStock q = Some ''false''"
    with f show "\<not> (p_inStock p \<and> 0 < p_stock p)" by (simp add: spec_matches_def)
  }
qed

theorem page_satisfies_filters_witness:
  "fst (get_products ex_localeCompare ex_toLowerCase ex_products ex_filter_query) = [ex_mug] \<and>
   filter_products ex_toLowerCase ex_filter_query ex_products = [ex_mug] \<and>
   spec_matches ex_toLowerCase ex_filter_query ex_mug \<and>
   (sublist (ex_toLowerCase ''KITCHEN'') (ex_toLowerCase (p_name ex_mug)) \<or>
    sublist (ex_toLowerCase ''KITCHEN'') (ex_toLowerCase (p_description ex_mug)) \<or>
    (\<exists>tag \<in> set (p_tags ex_mug).
       sublist (ex_toLowerCase ''KITCHEN'') (ex_toLowerCase tag))) \<and>
   ex_toLowerCase (p_category ex_mug) = ex_toLowerCase ''home'' \<and>
   ex_toLowerCase (p_subcategory ex_mug) = ex_toLowerCase ''kitchen'' \<and>
   ex_toLowerCase (p_brand ex_mug) = ex_toLowerCase ''ACME'' \<and>
   js_le (fl 5) (price_of ex_mug) \<and> js_le (price_of ex_mug) (fl 40) \<and>
   js_le (fl 4) (rating_of ex_mug) \<and>
   p_inStock ex_mug \<and> 0 < p_stock ex_mug \<and>
   filter_products ex_toLowerCase (ex_no_params\<lparr>q_inStock := Some ''true''\<rparr>) ex_products =
     [ex_mug, ex_lamp] \<and>
   filter_products ex_toLowerCase (ex_no_params\<lparr>q_inStock := Some ''false''\<rparr>) ex_products =
     [ex_pen, ex_cap]"
proof -
  have e: "fst (get_products ex_localeCompare ex_toLowerCase ex_products ex_filter_query) =
      [ex_mug]"
    by code_simp
  then have m: "ex_mug \<in>
      set (fst (get_products ex_localeCompare ex_toLowerCase ex_products ex_filter_query))"
    by simp
  have q: "q_search ex_filter_query = Some ''KITCHEN''" "q_category ex_filter_query = Some ''home''"
    "q_subcategory ex_filter_query = Some ''kitchen''" "q_brand ex_filter_query = Some ''ACME''"
    "q_minPrice ex_filter_query = Some (Fin 5)" "q_maxPrice ex_filter_query = Some (Fin 40)"
    "q_minRating ex_filter_query = Some (Fin 4)" "q_inStock ex_filter_query = Some ''true''"
    by (simp_all add: ex_filter_query_def)
  have s: "filter (spec_matches ex_toLowerCase ex_filter_query) ex_products = [ex_mug]"
    by code_simp
  have a: "filter_products ex_toLowerCase (ex_no_params\<lparr>q_inStock := None\<rparr>) ex_products =
      ex_products"
    by code_simp
  have t: "filter (\<lambda>p. p_inStock p \<and> 0 < p_stock p) ex_products = [ex_mug, ex_lamp]"
    by code_simp
  have f: "filter (\<lambda>p. \<not> (p_inStock p \<and> 0 < p_stock p)) ex_products = [ex_pen, ex_cap]"
    by code_simp
  note T = page_satisfies_filters [where toLowerCase = ex_toLowerCase
      and localeCompare = ex_localeCompare and products = ex_products]
  from T [where q = ex_filter_query and p = ex_mug and s = "''KITCHEN''" and c = "''home''"
      and sc = "''kitchen''" and b = "''ACME''" and lo = 5 and hi = 40 and r = 4] m q s
  have 1: "filter_products ex_toLowerCase ex_filter_query ex_products = [ex_mug] \<and>
   spec_matches ex_toLowerCase ex_filter_query ex_mug \<and>
   (sublist (ex_toLowerCase ''KITCHEN'') (ex_toLowerCase (p_name ex_mug)) \<or>
    sublist (ex_toLowerCase ''KITCHEN'') (ex_toLowerCase (p_description ex_mug)) \<or>
    (\<exists>tag \<in> set (p_tags ex_mug).
       sublist (ex_toLowerCase ''KITCHEN'') (ex_toLowerCase tag))) \<and>
   ex_toLowerCase (p_category ex_mug) = ex_toLowerCase ''home'' \<and>
   ex_toLowerCase (p_subcategory ex_mug) = ex_toLowerCase ''kitchen'' \<and>
   ex_toLowerCase (p_brand ex_mug) = ex_toLowerCase ''ACME'' \<and>
   js_le (fl 5) (price_of ex_mug) \<and> js_le (price_of ex_mug) (fl 40) \<and>
   js_le (fl 4) (rating_of ex_mug) \<and>
   p_inStock ex_mug \<and> 0 < p_stock ex_mug"
    by simp
  from T [where q = ex_no_params] a t f
  have 2: "filter_products ex_toLowerCase (ex_no_params\<lparr>q_inStock := Some ''true''\<rparr>)
      ex_products = [ex_mug, ex_lamp]"
    and 3: "filter_products ex_toLowerCase (ex_no_params\<lparr>q_inStock := Some ''false''\<rparr>)
      ex_products = [ex_pen, ex_cap]"
    by simp_all
  from e 1 2 3 show ?thesis by simp
qed

lemma get_products_page:
  assumes "or_default (I 1) (q_page q) = I p" "or_default (I 6) (q_limit q) = I s"
    "1 \<le> p" "1 \<le> s"
  shows "fst (get_products localeCompare toLowerCase products q) =
           take (nat s) (drop (nat ((p - 1) * s)) (sorted_filtered localeCompare toLowerCase q products))"
proof -
  have "0 \<le> (p - 1) * s" using assms(3,4) by simp
  moreover have "0 \<le> s" using assms(4) by simp
  ultimately show ?thesis
    using js_slice_nonneg [of "(p - 1) * s" s]
    by (simp add: get_products_def Let_def assms(1,2))
qed

lemma get_products_meta:
  assumes "or_default (I 1) (q_page q) = I p" "or_default (I 6) (q_limit q) = I s" "s \<noteq> 0"
  shows "snd (get_products localeCompare toLowerCase products q) =
           \<lparr>currentPage = I p,
            totalPages = Fin (of_int \<lceil>(of_nat (length (sorted_filtered localeCompare toLowerCase q products))
                                        :: rat) / of_int s\<rceil>),
            totalItems = length (sorted_filtered localeCompare toLowerCase q products),
            itemsPerPage = I s,
            hasNextPage = (p * s < int (length (sorted_filtered localeCompare toLowerCase q products))),
            hasPrevPage = (1 < p)\<rparr>"
proof -
  have "(p - 1) * s + s = p * s" by (simp add: algebra_simps)
  then show ?thesis
    using assms by (simp add: get_products_def Let_def total_pages_def)
qed

text \<open>
  Claim C6. For a page number \<open>p\<close> of at least 1 (default 1) and a page size \<open>s\<close> of at
  least 1 (default 6), the page is the slice from \<open>(p - 1) * s\<close> up to \<open>p * s\<close> of the
  sorted filtered sequence: its \<open>i\<close>-th item is the item of rank \<open>(p - 1) * s + i\<close>, and
  that rank is below \<open>p * s\<close> and below the length of the sequence. The total is the
  length of the filtered sequence, the page count is the total divided by \<open>s\<close> and
  rounded up, there is a next page iff \<open>p * s\<close> is below the total, and a previous page
  iff \<open>p\<close> is above 1.
\<close>

theorem products_pagination:
  assumes "or_default (I 1) (q_page q) = I p" "or_default (I 6) (q_limit q) = I s"
    "1 \<le> p" "1 \<le> s"
  shows
  "fst (get_products localeCompare toLowerCase products q) =
     take (nat s) (drop (nat ((p - 1) * s)) (sorted_filtered localeCompare toLowerCase q products)) \<and>
   (\<forall>i < length (fst (get_products localeCompare toLowerCase products q)).
      fst (get_products localeCompare toLowerCase products q) ! i =
        sorted_filtered localeCompare toLowerCase q products ! (nat ((p - 1) * s) + i) \<and>
      s * (p - 1) \<le> int (nat ((p - 1) * s) + i) \<and>
      int (nat ((p - 1) * s) + i) < s * p \<and>
      nat ((p - 1) * s) + i < length (sorted_filtered localeCompare toLowerCase q products)) \<and>
   length (sorted_filtered localeCompare toLowerCase q products) = length (filter_products toLowerCase q products) \<and>
   totalItems (snd (get_products localeCompare toLowerCase products q)) =
     length (filter_products toLowerCase q products) \<and>
   totalPages (snd (get_products localeCompare toLowerCase products q)) =
     Fin (of_int \<lceil>(of_nat (length (filter_products toLowerCase q products)) :: rat) / of_int s\<rceil>) \<and>
   hasNextPage (snd (get_products localeCompare toLowerCase products q)) =
     (p * s < int (length (filter_products toLowerCase q products))) \<and>
   hasPrevPage (snd (get_products localeCompare toLowerCase products q)) = (p > 1)"
proof -
  let ?sf = "sorted_filtered localeCompare toLowerCase q products"
  let ?page = "fst (get_products localeCompare toLowerCase products q)"
  have pg: "?page = take (nat s) (drop (nat ((p - 1) * s)) ?sf)"
    using assms by (rule get_products_page)
  have len: "length ?sf = length (filter_products toLowerCase q products)"
    by (simp add: sorted_filtered_def length_js_sort)
  have nn: "0 \<le> (p - 1) * s" using assms(3,4) by simp
  have r: "?page ! i = ?sf ! (nat ((p - 1) * s) + i) \<and>
      s * (p - 1) \<le> int (nat ((p - 1) * s) + i) \<and>
      int (nat ((p - 1) * s) + i) < s * p \<and>
      nat ((p - 1) * s) + i < length ?sf" if i: "i < length ?page" for i
  proof -
    from i have a: "i < nat s" and b: "nat ((p - 1) * s) + i < length ?sf"
      unfolding pg by auto
    have "?page ! i = ?sf ! (nat ((p - 1) * s) + i)"
      unfolding pg using a b by simp
    moreover have "s * (p - 1) \<le> int (nat ((p - 1) * s) + i)"
      using nn by (simp add: mult.commute)
    moreover have "int (nat ((p - 1) * s) + i) < s * p"
    proof -
      have "int (nat ((p - 1) * s) + i) = (p - 1) * s + int i" using nn by simp
      also have "\<dots> < (p - 1) * s + s" using a by simp
      also have "\<dots> = s * p" by (simp add: algebra_simps)
      finally show ?thesis .
    qed
    ultimately show ?thesis using b by simp
  qed
  have s0: "s \<noteq> 0" using assms(4) by simp
  note m = get_products_meta [OF assms(1,2) s0, of localeCompare toLowerCase products]
  from pg r len m show ?thesis by simp
qed

theorem products_pagination_witness:
  "sorted_filtered ex_localeCompare ex_toLowerCase ex_page_query ex_products = [ex_pen, ex_mug, ex_cap, ex_lamp] \<and>
   fst (get_products ex_localeCompare ex_toLowerCase ex_products ex_page_query) = [ex_lamp] \<and>
   totalItems (snd (get_products ex_localeCompare ex_toLowerCase ex_products ex_page_query)) = 4 \<and>
   totalPages (snd (get_products ex_localeCompare ex_toLowerCase ex_products ex_page_query)) = Fin 2 \<and>
   hasNextPage (snd (get_products ex_localeCompare ex_toLowerCase ex_products ex_page_query)) = False \<and>
   hasPrevPage (snd (get_products ex_localeCompare ex_toLowerCase ex_products ex_page_query)) = True \<and>
   fst (get_products ex_localeCompare ex_toLowerCase ex_products ex_no_params) =
     take 6 (sorted_filtered ex_localeCompare ex_toLowerCase ex_no_params ex_products)"
proof -
  have sf: "sorted_filtered ex_localeCompare ex_toLowerCase ex_page_query ex_products =
      [ex_pen, ex_mug, ex_cap, ex_lamp]"
    by code_simp
  have h: "or_default (I 1) (q_page ex_page_query) = I 2"
    "or_default (I 6) (q_limit ex_page_query) = I 3"
    by (simp_all add: ex_page_query_def or_default_def)
  have d: "or_default (I 1) (q_page ex_no_params) = I 1"
    "or_default (I 6) (q_limit ex_no_params) = I 6"
    by (simp_all add: ex_no_params_def or_default_def)
  have o: "(1::int) \<le> 2" "(1::int) \<le> 3" "(1::int) \<le> 1" "(1::int) \<le> 6" by simp_all
  have "length (sorted_filtered ex_localeCompare ex_toLowerCase ex_page_query ex_products) = 4"
    by (simp add: sf)
  then have len: "length (filter_products ex_toLowerCase ex_page_query ex_products) = 4"
    by (simp add: sorted_filtered_def length_js_sort)
  have c: "\<lceil>4 / 3 :: rat\<rceil> = 2" by (rule ceiling_unique) simp_all
  note t = products_pagination [OF h o(1,2), of ex_localeCompare ex_toLowerCase ex_products]
  note t' = products_pagination [OF d o(3,4), of ex_localeCompare ex_toLowerCase ex_products]
  from t have 1: "fst (get_products ex_localeCompare ex_toLowerCase ex_products ex_page_query) = [ex_lamp]"
    by (simp add: sf)
  from t len c have 2:
    "totalItems (snd (get_products ex_localeCompare ex_toLowerCase ex_products ex_page_query)) = 4"
    "totalPages (snd (get_products ex_localeCompare ex_toLowerCase ex_products ex_page_query)) = Fin 2"
    "hasNextPage (snd (get_products ex_localeCompare ex_toLowerCase ex_products ex_page_query)) = False"
    "hasPrevPage (snd (get_products ex_localeCompare ex_toLowerCase ex_products ex_page_query)) = True"
    by simp_all
  from t' have 3: "fst (get_products ex_localeCompare ex_toLowerCase ex_products ex_no_params) =
     take 6 (sorted_filtered ex_localeCompare ex_toLowerCase ex_no_params ex_products)"
    by simp
  from sf 1 2 3 show ?thesis by simp
qed

lemma filter_feed_cursor: "filter_feed toLowerCase (q\<lparr>fq_cursor := v\<rparr>) feed = filter_feed toLowerCase q feed"
  by (simp add: filter_feed_def)

lemma get_feed_page:
  assumes "or_default (I 0) (fq_cursor q) = I c" "or_default (I 6) (fq_limit q) = I l"
    "0 \<le> c" "0 \<le> l"
  shows "get_feed toLowerCase feed q =
           (take (nat l) (drop (nat c) (filter_feed toLowerCase q feed)),
            \<lparr>nextCursor = (if c + l < int (length (filter_feed toLowerCase q feed)) then Some (c + l)
                           else None),
             hasMore = (c + l < int (length (filter_feed toLowerCase q feed))),
             total = length (filter_feed toLowerCase q feed),
             returned = length (take (nat l) (drop (nat c) (filter_feed toLowerCase q feed)))\<rparr>)"
  using assms js_slice_nonneg [OF assms(3,4), of "filter_feed toLowerCase q feed"]
  by (simp add: get_feed_def Let_def)

text \<open>
  Claim C7. For a cursor \<open>c\<close> of at least 0 (default 0) and a limit \<open>l\<close> of at least 0
  (default 6), the items of \<^verbatim>\<open>GET /api/feed\<close> are the slice from \<open>c\<close> up to \<open>c + l\<close> of the
  feed filtered by the category (when one is given); the next cursor is \<open>c + l\<close> when that
  is below the length of the filtered feed and null otherwise; there is more iff the next
  cursor is not null; and the query repeated with the cursor set to the next cursor returns
  the slice from \<open>c + l\<close> up to \<open>c + 2 * l\<close>, so that the two pages together are the slice
  from \<open>c\<close> up to \<open>c + 2 * l\<close>.
\<close>

theorem feed_cursor_pagination:
  assumes "or_default (I 0) (fq_cursor q) = I c" "or_default (I 6) (fq_limit q) = I l"
    "0 \<le> c" "0 \<le> l"
  shows
  "fst (get_feed toLowerCase feed q) = take (nat l) (drop (nat c) (filter_feed toLowerCase q feed)) \<and>
   filter_feed toLowerCase q feed =
     (if or_default [] (fq_category q) \<noteq> []
      then filter (\<lambda>f. toLowerCase (f_category f) = toLowerCase (or_default [] (fq_category q)))
             feed
      else feed) \<and>
   nextCursor (snd (get_feed toLowerCase feed q)) =
     (if c + l < int (length (filter_feed toLowerCase q feed)) then Some (c + l) else None) \<and>
   hasMore (snd (get_feed toLowerCase feed q)) = (nextCursor (snd (get_feed toLowerCase feed q)) \<noteq> None) \<and>
   (nextCursor (snd (get_feed toLowerCase feed q)) = Some c' \<longrightarrow>
      c' = c + l \<and>
      fst (get_feed toLowerCase feed (q\<lparr>fq_cursor := Some (I c')\<rparr>)) =
        take (nat l) (drop (nat (c + l)) (filter_feed toLowerCase q feed)) \<and>
      fst (get_feed toLowerCase feed q) @ fst (get_feed toLowerCase feed (q\<lparr>fq_cursor := Some (I c')\<rparr>)) =
        take (nat (2 * l)) (drop (nat c) (filter_feed toLowerCase q feed)))"
proof -
  let ?f = "filter_feed toLowerCase q feed"
  note g = get_feed_page [OF assms, of toLowerCase feed]
  have 1: "fst (get_feed toLowerCase feed q) = take (nat l) (drop (nat c) ?f)" by (simp add: g)
  have 2: "nextCursor (snd (get_feed toLowerCase feed q)) =
     (if c + l < int (length ?f) then Some (c + l) else None)"
    by (simp add: g)
  have 3: "hasMore (snd (get_feed toLowerCase feed q)) = (nextCursor (snd (get_feed toLowerCase feed q)) \<noteq> None)"
    by (simp add: g)
  have 4: "c' = c + l \<and>
      fst (get_feed toLowerCase feed (q\<lparr>fq_cursor := Some (I c')\<rparr>)) = take (nat l) (drop (nat (c + l)) ?f) \<and>
      fst (get_feed toLowerCase feed q) @ fst (get_feed toLowerCase feed (q\<lparr>fq_cursor := Some (I c')\<rparr>)) =
        take (nat (2 * l)) (drop (nat c) ?f)"
    if n: "nextCursor (snd (get_feed toLowerCase feed q)) = Some c'"
  proof -
    from n 2 have c': "c' = c + l" by (simp split: if_splits)
    have a: "or_default (I 0) (fq_cursor (q\<lparr>fq_cursor := Some (I c')\<rparr>)) = I (c + l)"
      by (simp add: or_default_def c')
    have b: "or_default (I 6) (fq_limit (q\<lparr>fq_cursor := Some (I c')\<rparr>)) = I l"
      using assms(2) by simp
    have nn: "0 \<le> c + l" using assms(3,4) by simp
    from get_feed_page [OF a b nn assms(4), of toLowerCase feed]
    have 5: "fst (get_feed toLowerCase feed (q\<lparr>fq_cursor := Some (I c')\<rparr>)) =
        take (nat l) (drop (nat (c + l)) ?f)"
      by (simp add: filter_feed_cursor)
    have "nat (c + l) = nat l + nat c" "nat (2 * l) = nat l + nat l"
      using assms(3,4) by (simp_all add: nat_add_distrib)
    then have "take (nat l) (drop (nat c) ?f) @ take (nat l) (drop (nat (c + l)) ?f) =
        take (nat (2 * l)) (drop (nat c) ?f)"
      by (simp add: take_add)
    with c' 5 1 show ?thesis by simp
  qed
  have 0: "?f = (if or_default [] (fq_category q) \<noteq> []
      then filter (\<lambda>f. toLowerCase (f_category f) = toLowerCase (or_default [] (fq_category q)))
             feed
      else feed)"
    by (simp add: filter_feed_def Let_def)
  from 0 1 2 3 4 show ?thesis by blast
qed

theorem feed_cursor_pagination_witness:
  "map f_id (filter_feed ex_toLowerCase ex_feed_query ex_feed) = [1, 3, 4, 6, 7] \<and>
   map f_id (fst (get_feed ex_toLowerCase ex_feed ex_feed_query)) = [3, 4] \<and>
   nextCursor (snd (get_feed ex_toLowerCase ex_feed ex_feed_query)) = Some 3 \<and>
   hasMore (snd (get_feed ex_toLowerCase ex_feed ex_feed_query)) \<and>
   map f_id (fst (get_feed ex_toLowerCase ex_feed (ex_feed_query\<lparr>fq_cursor := Some (I 3)\<rparr>))) = [6, 7] \<and>
   map f_id (fst (get_feed ex_toLowerCase ex_feed ex_feed_query) @
             fst (get_feed ex_toLowerCase ex_feed (ex_feed_query\<lparr>fq_cursor := Some (I 3)\<rparr>))) = [3, 4, 6, 7]"
proof -
  have ff: "filter_feed ex_toLowerCase ex_feed_query ex_feed =
     [\<lparr>f_id = 1, f_category = ''News'', f_payload = ''a''\<rparr>,
      \<lparr>f_id = 3, f_category = ''news'', f_payload = ''c''\<rparr>,
      \<lparr>f_id = 4, f_category = ''News'', f_payload = ''d''\<rparr>,
      \<lparr>f_id = 6, f_category = ''NEWS'', f_payload = ''f''\<rparr>,
      \<lparr>f_id = 7, f_category = ''News'', f_payload = ''g''\<rparr>]"
    by code_simp
  have h: "or_default (I 0) (fq_cursor ex_feed_query) = I 1"
    "or_default (I 6) (fq_limit ex_feed_query) = I 2"
    by (simp_all add: ex_feed_query_def or_default_def)
  have o: "(0::int) \<le> 1" "(0::int) \<le> 2" by simp_all
  have n: "nat 3 = 3" "nat 4 = 4" "nat 2 = 2" by simp_all
  note t = feed_cursor_pagination [OF h o, of ex_toLowerCase ex_feed 3]
  from t have 1: "fst (get_feed ex_toLowerCase ex_feed ex_feed_query) =
     [\<lparr>f_id = 3, f_category = ''news'', f_payload = ''c''\<rparr>,
      \<lparr>f_id = 4, f_category = ''News'', f_payload = ''d''\<rparr>]"
    by (simp add: ff)
  from t have 2: "nextCursor (snd (get_feed ex_toLowerCase ex_feed ex_feed_query)) = Some 3"
    by (simp add: ff)
  from t 2 have 3: "hasMore (snd (get_feed ex_toLowerCase ex_feed ex_feed_query))" by simp
  from t 2 have 4: "fst (get_feed ex_toLowerCase ex_feed (ex_feed_query\<lparr>fq_cursor := Some (I 3)\<rparr>)) =
     [\<lparr>f_id = 6, f_category = ''NEWS'', f_payload = ''f''\<rparr>,
      \<lparr>f_id = 7, f_category = ''News'', f_payload = ''g''\<rparr>]"
    by (simp add: ff n)
  from ff 1 2 3 4 show ?thesis by simp
qed

end
